theory Spec2Isabelle
  imports Complex_Main
begin

section \<open>Numbers, points and the routing oracle\<close>

text \<open>
  The search engine of \<^verbatim>\<open>optimal_point.py\<close> works on pairs \<^verbatim>\<open>(lat, lng)\<close> of
  Python floats: \<^verbatim>\<open>calculate_distance\<close> reads \<^verbatim>\<open>point[0]\<close> as the latitude and
  \<^verbatim>\<open>point[1]\<close> as the longitude. Floats are idealised as exact rationals, so that
  every definition below computes; route times are Python integers (seconds).
  Printing is left out. Every function that talks to the map service returns, next to
  its value, the list of the argument pairs it handed over.
\<close>

type_synonym point = "rat \<times> rat"

type_synonym call = "point \<times> point"

datatype py_error =
    ValueError_empty_coordinates
  | ValueError_length_mismatch
  | ValueError_clustering_failed
  | ValueError_no_centroids
  | ValueError_ambiguous_truth
  | TypeError
  | IndexError
  | AttributeError
  | ZeroDivisionError

datatype pyval = PyNone | PyStr string | PyInt int

text \<open>
  \<^verbatim>\<open>round(x, 6)\<close>: the nearest multiple of \<open>10\<^sup>-\<^sup>6\<close>, a tie going to the even
  neighbour.
\<close>

definition rint :: "rat \<Rightarrow> int" where
  "rint x =
     (let f = \<lfloor>x\<rfloor>; d = x - of_int f
      in if d < 1 / 2 then f
         else if 1 / 2 < d then f + 1
         else if even f then f else f + 1)"

definition py_round6 :: "rat \<Rightarrow> rat" where
  "py_round6 x = of_int (rint (x * 1000000)) / 1000000"

definition round_point :: "point \<Rightarrow> point" where
  "round_point p = (py_round6 (fst p), py_round6 (snd p))"

text \<open>
  The map service. \<^verbatim>\<open>calculate_route\<close> returns a time or \<^verbatim>\<open>None\<close>; every
  implementation in \<^verbatim>\<open>map_api.py\<close> catches its own exceptions and returns
  \<^verbatim>\<open>None\<close>. \<^verbatim>\<open>calculate_route_time\<close> is a method that an implementation may
  lack (none of \<^verbatim>\<open>map_api.py\<close> has it): the attribute is optional.
\<close>

record api =
  calculate_route :: "point \<Rightarrow> point \<Rightarrow> int option"
  calculate_route_time :: "(point \<Rightarrow> point \<Rightarrow> int option) option"

text \<open>
  The lookup that every caller in \<^verbatim>\<open>optimal_point.py\<close> writes out:
  \<^verbatim>\<open>calculate_route\<close>, then \<^verbatim>\<open>calculate_route_time\<close> when the first answer is
  \<^verbatim>\<open>None\<close>, an \<^verbatim>\<open>AttributeError\<close> leaving \<^verbatim>\<open>None\<close>. The second component
  lists the argument pairs handed to the service, in call order.
\<close>

definition lookup_route :: "api \<Rightarrow> point \<Rightarrow> point \<Rightarrow> int option \<times> call list" where
  "lookup_route a p c =
     (case calculate_route a p c of
        Some t \<Rightarrow> (Some t, [(p, c)])
      | None \<Rightarrow>
          (case calculate_route_time a of
             None \<Rightarrow> (None, [(p, c)])
           | Some f \<Rightarrow> (f p c, [(p, c), (p, c)])))"

section \<open>Geo math: the weighted centroid\<close>

text \<open>
  \<^verbatim>\<open>weights[:len(coordinates)] + [1.0] * (len(coordinates) - len(weights))\<close>, and
  \<^verbatim>\<open>[1.0] * len(coordinates)\<close> for \<^verbatim>\<open>None\<close>.
\<close>

definition pad_weights :: "rat list option \<Rightarrow> nat \<Rightarrow> rat list" where
  "pad_weights weights n =
     (case weights of
        None \<Rightarrow> replicate n 1
      | Some ws \<Rightarrow>
          (if length ws \<noteq> n then take n ws @ replicate (n - length ws) 1 else ws))"

text \<open>
  \<^verbatim>\<open>calculate_centroid\<close> returns \<^verbatim>\<open>None\<close> for no coordinates, a tuple of two
  rounded floats in the regular case, and the unrounded numpy array
  \<^verbatim>\<open>points.mean(axis=0)\<close> when the weights sum to zero.
\<close>

datatype centroid = CentroidTuple point | CentroidArray point

fun coords_of :: "centroid \<Rightarrow> point" where
  "coords_of (CentroidTuple p) = p"
| "coords_of (CentroidArray p) = p"

definition calculate_centroid :: "point list \<Rightarrow> rat list option \<Rightarrow> centroid option" where
  "calculate_centroid coordinates weights =
     (if coordinates = [] then None
      else
        let ws = pad_weights weights (length coordinates);
            weighted_sum =
              (sum_list (map2 (\<lambda>p w. fst p * w) coordinates ws),
               sum_list (map2 (\<lambda>p w. snd p * w) coordinates ws));
            total_weight = sum_list ws
        in if total_weight = 0
           then Some (CentroidArray
                  (sum_list (map fst coordinates) / of_nat (length coordinates),
                   sum_list (map snd coordinates) / of_nat (length coordinates)))
           else Some (CentroidTuple
                  (py_round6 (fst weighted_sum / total_weight),
                   py_round6 (snd weighted_sum / total_weight))))"

section \<open>Cost evaluator\<close>

text \<open>
  The three cost functions share one loop shape: round the origin once, round each
  target, look the route up, skip an unknown time. Each returns its value with the
  calls it made.
\<close>

fun total_time_loop ::
  "api \<Rightarrow> point \<Rightarrow> (point \<times> rat) list \<Rightarrow> rat \<Rightarrow> call list \<Rightarrow> rat \<times> call list" where
  "total_time_loop a rounded_point [] total_time calls = (total_time, calls)"
| "total_time_loop a rounded_point ((coord, w) # rest) total_time calls =
     (let rounded_coord = round_point coord;
          r = lookup_route a rounded_point rounded_coord
      in case fst r of
           None \<Rightarrow> total_time_loop a rounded_point rest total_time (calls @ snd r)
         | Some time \<Rightarrow>
             total_time_loop a rounded_point rest (total_time + of_int time * w)
               (calls @ snd r))"

definition calculate_total_time ::
  "api \<Rightarrow> point \<Rightarrow> point list \<Rightarrow> rat list option \<Rightarrow> int \<times> call list" where
  "calculate_total_time a point coordinates weights =
     (if coordinates = [] then (0, [])
      else
        let ws = pad_weights weights (length coordinates);
            rounded_point = round_point point;
            r = total_time_loop a rounded_point (zip coordinates ws) 0 []
        in (if 0 < fst r then \<lfloor>fst r\<rfloor> else 0, snd r))"

fun pure_total_time_loop ::
  "api \<Rightarrow> point \<Rightarrow> point list \<Rightarrow> int \<Rightarrow> call list \<Rightarrow> int \<times> call list" where
  "pure_total_time_loop a rounded_point [] total_time calls = (total_time, calls)"
| "pure_total_time_loop a rounded_point (coord # rest) total_time calls =
     (let rounded_coord = round_point coord;
          r = lookup_route a rounded_point rounded_coord
      in case fst r of
           None \<Rightarrow> pure_total_time_loop a rounded_point rest total_time (calls @ snd r)
         | Some time \<Rightarrow>
             pure_total_time_loop a rounded_point rest (total_time + time) (calls @ snd r))"

definition calculate_pure_total_time :: "api \<Rightarrow> point \<Rightarrow> point list \<Rightarrow> int \<times> call list" where
  "calculate_pure_total_time a point coordinates =
     (if coordinates = [] then (0, [])
      else
        let rounded_point = round_point point;
            r = pure_total_time_loop a rounded_point coordinates 0 []
        in (if 0 < fst r then fst r else 0, snd r))"

fun max_time_loop ::
  "api \<Rightarrow> point \<Rightarrow> point list \<Rightarrow> int \<Rightarrow> call list \<Rightarrow> int \<times> call list" where
  "max_time_loop a rounded_point [] max_time calls = (max_time, calls)"
| "max_time_loop a rounded_point (coord # rest) max_time calls =
     (let rounded_coord = round_point coord;
          r = lookup_route a rounded_point rounded_coord
      in case fst r of
           None \<Rightarrow> max_time_loop a rounded_point rest max_time (calls @ snd r)
         | Some time \<Rightarrow>
             max_time_loop a rounded_point rest
               (if max_time < time then time else max_time) (calls @ snd r))"

definition calculate_max_time :: "api \<Rightarrow> point \<Rightarrow> point list \<Rightarrow> int \<times> call list" where
  "calculate_max_time a point coordinates =
     (if coordinates = [] then (0, [])
      else
        let rounded_point = round_point point;
            r = max_time_loop a rounded_point coordinates 0 []
        in (if 0 < fst r then fst r else 0, snd r))"

section \<open>Clustering preprocessor\<close>

text \<open>
  The clustering libraries are outside the repository: \<^verbatim>\<open>fit_predict\<close> of HDBSCAN
  (given \<^verbatim>\<open>min_cluster_size\<close>) and of KMeans (given \<^verbatim>\<open>n_clusters\<close>) are
  parameters that return a label per sample, or raise.
\<close>

record clusterer =
  hdbscan_fit_predict :: "int \<Rightarrow> point list \<Rightarrow> py_error + int list"
  kmeans_fit_predict :: "int \<Rightarrow> point list \<Rightarrow> py_error + int list"

type_synonym cluster = "point list \<times> rat list"

text \<open>
  The two \<^verbatim>\<open>defaultdict(list)\<close> of the grouping loop, kept as one association list
  in insertion order of the labels; \<^verbatim>\<open>coordinates[i]\<close> and \<^verbatim>\<open>weights[i]\<close> raise
  out of range.
\<close>

fun add_member :: "int \<Rightarrow> point \<Rightarrow> rat \<Rightarrow> (int \<times> cluster) list \<Rightarrow> (int \<times> cluster) list" where
  "add_member l c w [] = [(l, ([c], [w]))]"
| "add_member l c w ((k, (cs, ws)) # rest) =
     (if k = l then (k, (cs @ [c], ws @ [w])) # rest
      else (k, (cs, ws)) # add_member l c w rest)"

fun group_by_label ::
  "int list \<Rightarrow> nat \<Rightarrow> point list \<Rightarrow> rat list \<Rightarrow> (int \<times> cluster) list
     \<Rightarrow> py_error + (int \<times> cluster) list" where
  "group_by_label [] i coordinates ws acc = Inr acc"
| "group_by_label (l # ls) i coordinates ws acc =
     (if i < length coordinates \<and> i < length ws
      then group_by_label ls (Suc i) coordinates ws
             (add_member l (coordinates ! i) (ws ! i) acc)
      else Inl IndexError)"

text \<open>
  \<^verbatim>\<open>[(coord, weight) for coord, weight in zip(coordinates, weights)]\<close>; zipping
  with \<^verbatim>\<open>None\<close> raises.
\<close>

definition singletons :: "point list \<Rightarrow> rat list option \<Rightarrow> py_error + (centroid \<times> rat) list" where
  "singletons coordinates weights =
     (case weights of
        None \<Rightarrow> Inl TypeError
      | Some ws \<Rightarrow> Inr (map (\<lambda>(c, w). (CentroidTuple c, w)) (zip coordinates ws)))"

definition group_samples ::
  "int list \<Rightarrow> point list \<Rightarrow> rat list option \<Rightarrow> py_error + (int \<times> cluster) list" where
  "group_samples labels coordinates weights =
     (case weights of
        None \<Rightarrow>
          (if labels = [] then Inr []
           else if coordinates = [] then Inl IndexError else Inl TypeError)
      | Some ws \<Rightarrow> group_by_label labels 0 coordinates ws [])"

text \<open>
  One centre per group; under HDBSCAN the noise label \<open>-1\<close> keeps each member as its
  own centre. A group is never empty, so \<^verbatim>\<open>calculate_centroid\<close> answers.
\<close>

fun cluster_centers_of :: "bool \<Rightarrow> (int \<times> cluster) list \<Rightarrow> py_error + (centroid \<times> rat) list" where
  "cluster_centers_of noise [] = Inr []"
| "cluster_centers_of noise ((l, (cs, ws)) # rest) =
     (case cluster_centers_of noise rest of
        Inl e \<Rightarrow> Inl e
      | Inr others \<Rightarrow>
          (if noise \<and> l = - 1
           then Inr (map (\<lambda>(c, w). (CentroidTuple c, w)) (zip cs ws) @ others)
           else
             (case calculate_centroid cs (Some ws) of
                None \<Rightarrow> Inl TypeError
              | Some c \<Rightarrow> Inr ((c, sum_list ws) # others))))"

definition apply_hdbscan ::
  "clusterer \<Rightarrow> point list \<Rightarrow> rat list option \<Rightarrow> pyval \<Rightarrow> py_error + (centroid \<times> rat) list" where
  "apply_hdbscan cl coordinates weights min_cluster_size =
     (case min_cluster_size of
        PyInt m \<Rightarrow>
          (if int (length coordinates) < m then singletons coordinates weights
           else
             (case hdbscan_fit_predict cl m coordinates of
                Inl e \<Rightarrow> Inl e
              | Inr labels \<Rightarrow>
                  (case group_samples labels coordinates weights of
                     Inl e \<Rightarrow> Inl e
                   | Inr groups \<Rightarrow> cluster_centers_of True groups)))
      | _ \<Rightarrow> Inl TypeError)"

definition apply_capacity_kmeans ::
  "clusterer \<Rightarrow> point list \<Rightarrow> rat list option \<Rightarrow> int \<Rightarrow> py_error + (centroid \<times> rat) list" where
  "apply_capacity_kmeans cl coordinates weights max_cluster_size =
     (if int (length coordinates) \<le> max_cluster_size then singletons coordinates weights
      else if max_cluster_size = 0 then Inl ZeroDivisionError
      else
        let k = max 2 (int (length coordinates) div max_cluster_size)
        in case kmeans_fit_predict cl k coordinates of
             Inl e \<Rightarrow> Inl e
           | Inr labels \<Rightarrow>
               (case group_samples labels coordinates weights of
                  Inl e \<Rightarrow> Inl e
                | Inr groups \<Rightarrow> cluster_centers_of False groups))"

text \<open>\<^verbatim>\<open>str.lower\<close> on the ASCII letters.\<close>

definition lower_char :: "char \<Rightarrow> char" where
  "lower_char c =
     (let n = (of_char c :: nat)
      in if 65 \<le> n \<and> n \<le> 90 then char_of (n + 32) else c)"

definition lower :: "string \<Rightarrow> string" where
  "lower s = map lower_char s"

definition perform_clustering ::
  "clusterer \<Rightarrow> point list \<Rightarrow> rat list \<Rightarrow> string \<Rightarrow> int \<Rightarrow> py_error + cluster list" where
  "perform_clustering cl coordinates weights method param =
     (if coordinates = [] then Inr []
      else if lower method = ''hdbscan'' then
        (let min_cluster_size = (if 0 < param then param else 5)
         in if int (length coordinates) < min_cluster_size then Inr [(coordinates, weights)]
            else
              (case hdbscan_fit_predict cl min_cluster_size coordinates of
                 Inl e \<Rightarrow> Inl e
               | Inr labels \<Rightarrow>
                   (case group_by_label labels 0 coordinates weights [] of
                      Inl e \<Rightarrow> Inl e
                    | Inr groups \<Rightarrow> Inr (map snd groups))))
      else if lower method = ''kmeans'' then
        (let max_cluster_size = (if 0 < param then param else 10)
         in if int (length coordinates) \<le> max_cluster_size then Inr [(coordinates, weights)]
            else
              (let k = max 2 (int (length coordinates) div max_cluster_size)
               in case kmeans_fit_predict cl k coordinates of
                    Inl e \<Rightarrow> Inl e
                  | Inr labels \<Rightarrow>
                      (case group_by_label labels 0 coordinates weights [] of
                         Inl e \<Rightarrow> Inl e
                       | Inr groups \<Rightarrow> Inr (map snd groups))))
      else Inr [(coordinates, weights)])"

section \<open>Coordinate-descent search\<close>

definition cluster_threshold :: nat where
  "cluster_threshold = 20"

definition min_radius :: rat where
  "min_radius = 1 / 10000"

definition directions :: "(int \<times> int) list" where
  "directions = [(1, 0), (0, 1), (- 1, 0), (0, - 1)]"

text \<open>
  The dictionary of direction names in the probing loop,
  \<^verbatim>\<open>{(1, 0): East, (0, 1): North, (-1, 0): West, (0, -1): South}\<close> (the source
  writes the four names in Chinese).
\<close>

datatype compass = East | North | West | South

definition direction_name :: "int \<times> int \<Rightarrow> compass option" where
  "direction_name d =
     (if d = (1, 0) then Some East
      else if d = (0, 1) then Some North
      else if d = (- 1, 0) then Some West
      else if d = (0, - 1) then Some South
      else None)"

definition new_point :: "point \<Rightarrow> int \<times> int \<Rightarrow> rat \<Rightarrow> point" where
  "new_point p d r =
     (py_round6 (fst p + of_int (fst d) * r), py_round6 (snd p + of_int (snd d) * r))"

text \<open>
  The \<^verbatim>\<open>for dx, dy in self.directions\<close> loop of one iteration: it stops at the first
  candidate whose metric is below the current one (\<^verbatim>\<open>break\<close>).
\<close>

fun probe ::
  "api \<Rightarrow> string \<Rightarrow> point list \<Rightarrow> rat list option \<Rightarrow> point \<Rightarrow> int \<Rightarrow> rat
     \<Rightarrow> (int \<times> int) list \<Rightarrow> call list \<Rightarrow> (point \<times> int) option \<times> call list" where
  "probe a algorithm_type coordinates weights p t r [] calls = (None, calls)"
| "probe a algorithm_type coordinates weights p t r (d # ds) calls =
     (let np = new_point p d r;
          new_metric =
            (if algorithm_type = ''min_max_time'' then calculate_max_time a np coordinates
             else calculate_total_time a np coordinates weights)
      in if fst new_metric < t then (Some (np, fst new_metric), calls @ snd new_metric)
         else probe a algorithm_type coordinates weights p t r ds (calls @ snd new_metric))"

record search_state =
  current_point :: point
  current_time :: int
  radius :: rat
  iteration_count :: nat
  oracle_calls :: "call list"

lemma calculate_total_time_nonneg: "0 \<le> fst (calculate_total_time a p cs ws)"
  by (simp add: calculate_total_time_def Let_def)

lemma calculate_max_time_nonneg: "0 \<le> fst (calculate_max_time a p cs)"
  by (simp add: calculate_max_time_def Let_def)

lemma probe_Some:
  "fst (probe a alg cs ws p t r ds calls) = Some (q, m) \<Longrightarrow> 0 \<le> m \<and> m < t"
proof (induction ds arbitrary: calls)
  case Nil
  then show ?case by simp
next
  case (Cons d ds)
  then show ?case
    by (auto simp: Let_def calculate_total_time_nonneg calculate_max_time_nonneg split: if_splits)
qed

lemma floor_half_less:
  fixes x :: rat
  assumes "1 \<le> x"
  shows "\<lfloor>x / 2\<rfloor> < \<lfloor>x\<rfloor>"
proof -
  have n: "1 \<le> \<lfloor>x\<rfloor>" using assms by (simp add: le_floor_iff)
  have a: "x < of_int \<lfloor>x\<rfloor> + 1" by linarith
  have "x / 2 < (of_int \<lfloor>x\<rfloor> + 1) / 2" using a by simp
  also have "\<dots> \<le> (of_int \<lfloor>x\<rfloor> :: rat)"
  proof -
    have "(1::rat) \<le> of_int \<lfloor>x\<rfloor>" using n by linarith
    then show ?thesis by (simp add: field_simps)
  qed
  finally show ?thesis by (simp add: floor_less_iff)
qed

text \<open>
  The body of \<^verbatim>\<open>while radius >= self.min_radius\<close>: an accepted candidate replaces
  the point and the metric and keeps the radius; a round without one halves the
  radius.
\<close>

definition iteration ::
  "api \<Rightarrow> string \<Rightarrow> point list \<Rightarrow> rat list option \<Rightarrow> search_state \<Rightarrow> search_state" where
  "iteration a algorithm_type coordinates weights s =
     (let r = probe a algorithm_type coordinates weights (current_point s)
                (current_time s) (radius s) directions (oracle_calls s)
      in case fst r of
           Some found \<Rightarrow>
             s\<lparr>current_point := fst found, current_time := snd found,
               iteration_count := iteration_count s + 1, oracle_calls := snd r\<rparr>
         | None \<Rightarrow>
             s\<lparr>radius := radius s / 2,
               iteration_count := iteration_count s + 1, oracle_calls := snd r\<rparr>)"

lemma iteration_progress:
  assumes "min_radius \<le> radius s"
  shows "nat \<lfloor>radius (iteration a alg cs ws s) / min_radius\<rfloor> < nat \<lfloor>radius s / min_radius\<rfloor>
         \<or> (radius (iteration a alg cs ws s) = radius s
            \<and> 0 \<le> current_time (iteration a alg cs ws s)
            \<and> current_time (iteration a alg cs ws s) < current_time s)"
proof (cases "fst (probe a alg cs ws (current_point s) (current_time s) (radius s)
                     directions (oracle_calls s))")
  case None
  have one: "1 \<le> radius s / min_radius"
    using assms by (simp add: min_radius_def)
  have "\<lfloor>radius s / min_radius / 2\<rfloor> < \<lfloor>radius s / min_radius\<rfloor>"
    using floor_half_less [OF one] .
  moreover have "0 < \<lfloor>radius s / min_radius\<rfloor>"
    using one by (simp add: less_floor_iff)
  ultimately show ?thesis
    using None by (simp add: iteration_def Let_def mult.commute)
next
  case (Some found)
  have "0 \<le> snd found \<and> snd found < current_time s"
    using Some probe_Some [of a alg cs ws "current_point s" "current_time s" "radius s"
                              directions "oracle_calls s" "fst found" "snd found"]
    by simp
  then show ?thesis using Some by (simp add: iteration_def Let_def)
qed

function search_loop ::
  "api \<Rightarrow> string \<Rightarrow> point list \<Rightarrow> rat list option \<Rightarrow> search_state \<Rightarrow> search_state" where
  "search_loop a algorithm_type coordinates weights s =
     (if min_radius \<le> radius s
      then search_loop a algorithm_type coordinates weights
             (iteration a algorithm_type coordinates weights s)
      else s)"
  by pat_completeness auto
termination
proof (relation "measures [\<lambda>(a, alg, cs, ws, s). nat \<lfloor>radius s / min_radius\<rfloor>,
                           \<lambda>(a, alg, cs, ws, s). nat (current_time s)]", goal_cases)
  case 1
  then show ?case by simp
next
  case (2 a alg cs ws s)
  then show ?case
    using iteration_progress [of s a alg cs ws] by auto
qed

declare search_loop.simps [simp del]

section \<open>Reporting and the two entry points\<close>

text \<open>
  One dictionary of \<^verbatim>\<open>individual_times\<close>; \<^verbatim>\<open>time_formatted\<close> is display text
  and is left out. The pass hands the final point and the caller's coordinate to the
  service as they are. \<^verbatim>\<open>weights[i]\<close> is read after the lookup; when it raises, the
  handler reads it again, so the exception leaves the function.
\<close>

record entry =
  point_index :: nat
  entry_coordinates :: point
  time_seconds :: "int option"
  entry_weight :: rat

fun individual_times_loop ::
  "api \<Rightarrow> point \<Rightarrow> point list \<Rightarrow> rat list option \<Rightarrow> nat \<Rightarrow> entry list \<Rightarrow> call list
     \<Rightarrow> (py_error + entry list) \<times> call list" where
  "individual_times_loop a p [] weights i acc calls = (Inr acc, calls)"
| "individual_times_loop a p (coord # rest) weights i acc calls =
     (let r = lookup_route a p coord
      in case weights of
           None \<Rightarrow> (Inl TypeError, calls @ snd r)
         | Some ws \<Rightarrow>
             (if i < length ws
              then individual_times_loop a p rest weights (Suc i)
                     (acc @ [\<lparr>point_index = i, entry_coordinates = coord,
                              time_seconds = fst r, entry_weight = ws ! i\<rparr>])
                     (calls @ snd r)
              else (Inl IndexError, calls @ snd r)))"

text \<open>
  The returned dictionary. \<^verbatim>\<open>calculation_logs\<close> and \<^verbatim>\<open>clustering_info\<close> are
  display data; of the log, the iteration count is kept. The distance loop before
  the search only feeds the log.
\<close>

record search_result =
  optimal_point :: point
  total_time :: int
  pure_total_time :: int
  individual_times :: "entry list"
  logged_iterations :: nat

fun truthy :: "pyval \<Rightarrow> bool" where
  "truthy PyNone = False"
| "truthy (PyStr s) = (s \<noteq> [])"
| "truthy (PyInt i) = (i \<noteq> 0)"

text \<open>
  The clustering branch of \<^verbatim>\<open>find_optimal_point\<close>: \<^verbatim>\<open>clustering_method.lower()\<close>
  exists on strings only.
\<close>

definition cluster_centers ::
  "clusterer \<Rightarrow> point list \<Rightarrow> rat list option \<Rightarrow> pyval \<Rightarrow> pyval \<Rightarrow> int
     \<Rightarrow> py_error + (centroid \<times> rat) list" where
  "cluster_centers cl coordinates weights clustering_method min_cluster_size max_cluster_size =
     (case clustering_method of
        PyStr m \<Rightarrow>
          (if lower m = ''hdbscan'' then apply_hdbscan cl coordinates weights min_cluster_size
           else if lower m = ''kmeans''
             then apply_capacity_kmeans cl coordinates weights max_cluster_size
           else singletons coordinates weights)
      | _ \<Rightarrow> Inl AttributeError)"

definition initial_point ::
  "clusterer \<Rightarrow> point list \<Rightarrow> rat list option \<Rightarrow> pyval \<Rightarrow> pyval \<Rightarrow> int
     \<Rightarrow> py_error + point" where
  "initial_point cl coordinates weights clustering_method min_cluster_size max_cluster_size =
     (let method =
            (if cluster_threshold < length coordinates \<and> clustering_method = PyNone
             then PyStr ''hdbscan'' else clustering_method)
      in if truthy method \<and> cluster_threshold < length coordinates then
           (case cluster_centers cl coordinates weights method min_cluster_size
                   max_cluster_size of
              Inl e \<Rightarrow> Inl e
            | Inr centers \<Rightarrow>
                (case calculate_centroid (map (coords_of \<circ> fst) centers)
                        (Some (map snd centers)) of
                   None \<Rightarrow> Inl TypeError
                 | Some c \<Rightarrow> Inr (coords_of c)))
         else
           (case calculate_centroid coordinates weights of
              None \<Rightarrow> Inl TypeError
            | Some c \<Rightarrow> Inr (coords_of c)))"

definition find_optimal_point ::
  "api \<Rightarrow> clusterer \<Rightarrow> point list \<Rightarrow> rat list option \<Rightarrow> pyval \<Rightarrow> pyval \<Rightarrow> int \<Rightarrow> int
     \<Rightarrow> string \<Rightarrow> (py_error + search_result option) \<times> call list" where
  "find_optimal_point a cl coordinates weights clustering_method min_cluster_size
       max_cluster_size search_step algorithm_type =
     (if coordinates = [] then (Inr None, [])
      else
        (case initial_point cl coordinates weights clustering_method min_cluster_size
                max_cluster_size of
           Inl e \<Rightarrow> (Inl e, [])
         | Inr start \<Rightarrow>
             (let first =
                    (if algorithm_type = ''min_max_time''
                     then calculate_max_time a start coordinates
                     else calculate_total_time a start coordinates weights);
                  final =
                    search_loop a algorithm_type coordinates weights
                      \<lparr>current_point = start, current_time = fst first,
                       radius = of_int search_step * (9 / 1000000),
                       iteration_count = 0, oracle_calls = snd first\<rparr>;
                  times =
                    individual_times_loop a (current_point final) coordinates weights 0 []
                      (oracle_calls final)
              in case fst times of
                   Inl e \<Rightarrow> (Inl e, snd times)
                 | Inr entries \<Rightarrow>
                     (let pure = calculate_pure_total_time a (current_point final) coordinates
                      in (Inr (Some \<lparr>optimal_point = current_point final,
                                     total_time = current_time final,
                                     pure_total_time = fst pure,
                                     individual_times = entries,
                                     logged_iterations = iteration_count final\<rparr>),
                          snd times @ snd pure)))))"

text \<open>
  \<^verbatim>\<open>find_optimal_point_with_clustering\<close>. The loop over the clusters tests
  \<^verbatim>\<open>if centroid:\<close>, which a tuple passes and a numpy array of two elements answers
  with a \<^verbatim>\<open>ValueError\<close>.
\<close>

fun cluster_centroids :: "cluster list \<Rightarrow> py_error + (point \<times> rat) list" where
  "cluster_centroids [] = Inr []"
| "cluster_centroids ((cs, ws) # rest) =
     (if cs = [] then cluster_centroids rest
      else
        (case calculate_centroid cs (Some ws) of
           None \<Rightarrow> cluster_centroids rest
         | Some (CentroidArray p) \<Rightarrow> Inl ValueError_ambiguous_truth
         | Some (CentroidTuple p) \<Rightarrow>
             (case cluster_centroids rest of
                Inl e \<Rightarrow> Inl e
              | Inr others \<Rightarrow> Inr ((p, sum_list ws) # others))))"

record clustered_result =
  result :: search_result
  clusters :: "cluster list"
  cluster_count :: nat
  clustering_method :: string
  clustering_param :: int

text \<open>
  The second half of \<^verbatim>\<open>find_optimal_point_with_clustering\<close>, after the inner
  search has returned its dictionary: the objective, the per-location times and the
  pure total are computed from the final point, and the dictionary is updated.
\<close>

definition recompute_report ::
  "api \<Rightarrow> point list \<Rightarrow> rat list \<Rightarrow> string \<Rightarrow> int \<Rightarrow> string \<Rightarrow> cluster list
     \<Rightarrow> search_result \<Rightarrow> call list \<Rightarrow> (py_error + clustered_result) \<times> call list" where
  "recompute_report a coordinates ws method param algorithm_type cls res calls =
     (let total =
            (if algorithm_type = ''min_max_time''
             then calculate_max_time a (optimal_point res) coordinates
             else calculate_total_time a (optimal_point res) coordinates (Some ws));
          times =
            individual_times_loop a (optimal_point res) coordinates (Some ws) 0 []
              (calls @ snd total)
      in case fst times of
           Inl e \<Rightarrow> (Inl e, snd times)
         | Inr entries \<Rightarrow>
             (let pure = calculate_pure_total_time a (optimal_point res) coordinates
              in (Inr \<lparr>result = res\<lparr>total_time := fst total,
                                    pure_total_time := fst pure,
                                    individual_times := entries\<rparr>,
                        clusters = cls,
                        cluster_count = length cls,
                        clustering_method = method,
                        clustering_param = param\<rparr>,
                  snd times @ snd pure)))"

text \<open>
  The inner search is called as
  \<^verbatim>\<open>self.find_optimal_point(cluster_centroids, cluster_weights, search_step, algorithm_type)\<close>:
  the third and fourth positional parameters of \<^verbatim>\<open>find_optimal_point\<close> are
  \<^verbatim>\<open>clustering_method\<close> and \<^verbatim>\<open>min_cluster_size\<close>, so \<^verbatim>\<open>max_cluster_size\<close>,
  \<^verbatim>\<open>search_step\<close> and \<^verbatim>\<open>algorithm_type\<close> take their defaults \<open>10\<close>, \<open>100\<close> and
  \<^verbatim>\<open>'total_cost'\<close>.
\<close>

definition find_optimal_point_with_clustering ::
  "api \<Rightarrow> clusterer \<Rightarrow> point list \<Rightarrow> rat list option \<Rightarrow> string \<Rightarrow> int \<Rightarrow> int \<Rightarrow> string
     \<Rightarrow> (py_error + clustered_result) \<times> call list" where
  "find_optimal_point_with_clustering a cl coordinates weights method param search_step
       algorithm_type =
     (if coordinates = [] then (Inl ValueError_empty_coordinates, [])
      else
        let ws = (case weights of None \<Rightarrow> replicate (length coordinates) 1 | Some l \<Rightarrow> l)
        in if length coordinates \<noteq> length ws then (Inl ValueError_length_mismatch, [])
           else
             (case perform_clustering cl coordinates ws method param of
                Inl e \<Rightarrow> (Inl e, [])
              | Inr cls \<Rightarrow>
                  (if cls = [] then (Inl ValueError_clustering_failed, [])
                   else
                     (case cluster_centroids cls of
                        Inl e \<Rightarrow> (Inl e, [])
                      | Inr cents \<Rightarrow>
                          (if cents = [] then (Inl ValueError_no_centroids, [])
                           else
                             (let inner =
                                    find_optimal_point a cl (map fst cents)
                                      (Some (map snd cents)) (PyInt search_step)
                                      (PyStr algorithm_type) 10 100 ''total_cost''
                              in case fst inner of
                                   Inl e \<Rightarrow> (Inl e, snd inner)
                                 | Inr None \<Rightarrow> (Inl TypeError, snd inner)
                                 | Inr (Some res) \<Rightarrow>
                                     recompute_report a coordinates ws method param
                                       algorithm_type cls res (snd inner)))))))"

section \<open>Sample services\<close>

text \<open>Concrete map services and clusterers on which the properties below are run.\<close>

definition const_api :: "int \<Rightarrow> api" where
  "const_api t = \<lparr>calculate_route = (\<lambda>p c. Some t), calculate_route_time = None\<rparr>"

definition none_api :: api where
  "none_api = \<lparr>calculate_route = (\<lambda>p c. None), calculate_route_time = None\<rparr>"

text \<open>
  A service whose time depends on the origin only: \<open>5\<close> seconds from a point at
  least \<open>0.0009\<close> degrees north or east of the origin of coordinates, \<open>10\<close>
  otherwise.
\<close>

definition downhill_api :: api where
  "downhill_api =
     \<lparr>calculate_route =
        (\<lambda>p c. Some (if 9 / 10000 \<le> fst p \<or> 9 / 10000 \<le> snd p then 5 else 10)),
      calculate_route_time = None\<rparr>"

definition start_state :: "int \<Rightarrow> search_state" where
  "start_state t =
     \<lparr>current_point = (0, 0), current_time = t, radius = 9 / 10000,
      iteration_count = 0, oracle_calls = []\<rparr>"

text \<open>A service that has routes only to destinations south of latitude \<open>1\<close>.\<close>

definition near_api :: api where
  "near_api =
     \<lparr>calculate_route = (\<lambda>p c. if fst c < 1 then Some 10 else None),
      calculate_route_time = None\<rparr>"

text \<open>A clustering library that puts every sample into cluster \<open>0\<close>.\<close>

definition one_cluster :: clusterer where
  "one_cluster =
     \<lparr>hdbscan_fit_predict = (\<lambda>m ps. Inr (map (\<lambda>p. 0) ps)),
      kmeans_fit_predict = (\<lambda>k ps. Inr (map (\<lambda>p. 0) ps))\<rparr>"

text \<open>
  A service on which the two objectives move apart: a destination south of latitude
  \<open>1\<close> takes \<open>5\<close> seconds from an origin north of latitude \<open>1\<close> and \<open>10\<close>
  seconds from elsewhere; any other destination takes \<open>20\<close> seconds.
\<close>

definition uneven_api :: api where
  "uneven_api =
     \<lparr>calculate_route =
        (\<lambda>p c. Some (if fst c < 1 then (if 1 < fst p then 5 else 10) else 20)),
      calculate_route_time = None\<rparr>"

section \<open>Properties of the geo math and the cost evaluator\<close>




lemma total_time_loop_fst:
  "fst (total_time_loop a rp xs acc calls) =
     acc + (\<Sum>(c, w)\<leftarrow>xs. case fst (lookup_route a rp (round_point c)) of
                              None \<Rightarrow> 0 | Some t \<Rightarrow> of_int t * w)"
  by (induction xs arbitrary: acc calls) (auto simp: Let_def split: option.splits)

lemma max_time_loop_fst:
  "fst (max_time_loop a rp cs m calls) =
     Max (set (m # List.map_filter (\<lambda>c. fst (lookup_route a rp (round_point c))) cs))"
proof (induction cs arbitrary: m calls)
  case Nil
  then show ?case by (simp add: List.map_filter_simps)
next
  case (Cons c cs)
  show ?case
  proof (cases "fst (lookup_route a rp (round_point c))")
    case None
    then show ?thesis using Cons by (simp add: Let_def List.map_filter_simps)
  next
    case (Some t)
    let ?S = "set (List.map_filter (\<lambda>c. fst (lookup_route a rp (round_point c))) cs)"
    have "Max (insert (if m < t then t else m) ?S) = Max (insert m (insert t ?S))"
      by (cases "?S = {}") (simp_all add: max_def)
    then show ?thesis using Some Cons by (simp add: Let_def List.map_filter_simps)
  qed
qed

lemma pure_total_time_loop_fst:
  "fst (pure_total_time_loop a rp cs acc calls) =
     acc + sum_list (List.map_filter (\<lambda>c. fst (lookup_route a rp (round_point c))) cs)"
  by (induction cs arbitrary: acc calls) (auto simp: Let_def List.map_filter_simps split: option.splits)

text \<open>
  Claim C4, as the code has it. The weighted-sum cost is the sum of weight times route
  time over the locations whose lookup succeeds, cut to an integer by \<^verbatim>\<open>int()\<close> and
  \<open>0\<close> when that sum is not positive; the weights are the padded ones. The min-max
  cost is the largest successful route time, and \<open>0\<close> when none is positive. Both are
  non-negative integers, an unknown time is skipped, and both are \<open>0\<close> when every
  lookup from the point fails.
\<close>

theorem C4_cost_values:
  "fst (calculate_total_time a p cs weights) =
     (let total = (\<Sum>(c, w)\<leftarrow>zip cs (pad_weights weights (length cs)).
                     case fst (lookup_route a (round_point p) (round_point c)) of
                       None \<Rightarrow> 0 | Some t \<Rightarrow> of_int t * w)
      in if 0 < total then \<lfloor>total\<rfloor> else 0)
   \<and> fst (calculate_max_time a p cs) =
       Max (set (0 # List.map_filter
                        (\<lambda>c. fst (lookup_route a (round_point p) (round_point c))) cs))
   \<and> 0 \<le> fst (calculate_total_time a p cs weights)
   \<and> 0 \<le> fst (calculate_max_time a p cs)
   \<and> ((\<forall>c\<in>set cs. fst (lookup_route a (round_point p) (round_point c)) = None) \<longrightarrow>
        fst (calculate_total_time a p cs weights) = 0 \<and> fst (calculate_max_time a p cs) = 0)"
proof -
  have tot: "fst (calculate_total_time a p cs weights) =
     (let total = (\<Sum>(c, w)\<leftarrow>zip cs (pad_weights weights (length cs)).
                     case fst (lookup_route a (round_point p) (round_point c)) of
                       None \<Rightarrow> 0 | Some t \<Rightarrow> of_int t * w)
      in if 0 < total then \<lfloor>total\<rfloor> else 0)"
    by (cases "cs = []") (simp_all add: calculate_total_time_def Let_def total_time_loop_fst)
  have mx: "fst (calculate_max_time a p cs) =
       Max (set (0 # List.map_filter
                        (\<lambda>c. fst (lookup_route a (round_point p) (round_point c))) cs))"
  proof (cases "cs = []")
    case True
    then show ?thesis by (simp add: calculate_max_time_def List.map_filter_simps)
  next
    case False
    let ?S = "set (List.map_filter
                        (\<lambda>c. fst (lookup_route a (round_point p) (round_point c))) cs)"
    have clamp: "(if 0 < M then M else 0) = M" if "0 \<le> M" for M :: int
      using that by simp
    have ge: "0 \<le> Max (set (0 # List.map_filter
                        (\<lambda>c. fst (lookup_route a (round_point p) (round_point c))) cs))"
      by simp
    have "fst (calculate_max_time a p cs) =
            (if 0 < Max (set (0 # List.map_filter
                        (\<lambda>c. fst (lookup_route a (round_point p) (round_point c))) cs))
             then Max (set (0 # List.map_filter
                        (\<lambda>c. fst (lookup_route a (round_point p) (round_point c))) cs))
             else 0)"
      using False by (simp add: calculate_max_time_def Let_def max_time_loop_fst)
    then show ?thesis by (simp only: clamp [OF ge])
  qed
  have none: "fst (calculate_total_time a p cs weights) = 0 \<and> fst (calculate_max_time a p cs) = 0"
    if h: "\<forall>c\<in>set cs. fst (lookup_route a (round_point p) (round_point c)) = None"
  proof -
    have z: "(\<Sum>(c, w)\<leftarrow>zip cs (pad_weights weights (length cs)).
                     case fst (lookup_route a (round_point p) (round_point c)) of
                       None \<Rightarrow> 0 | Some t \<Rightarrow> of_int t * w) = (0::rat)"
    proof -
      have "\<forall>x\<in>set (zip cs (pad_weights weights (length cs))).
              (case x of (c, w) \<Rightarrow> case fst (lookup_route a (round_point p) (round_point c)) of
                       None \<Rightarrow> 0 | Some t \<Rightarrow> of_int t * w) = (0::rat)"
        using h by (auto dest: set_zip_leftD)
      then show ?thesis by (simp add: sum_list_0 cong: map_cong)
    qed
    have e: "List.map_filter (\<lambda>c. fst (lookup_route a (round_point p) (round_point c))) cs = []"
      using h by (induction cs) (simp_all add: List.map_filter_simps)
    show ?thesis using tot mx z e by simp
  qed
  show ?thesis
    using tot mx none calculate_total_time_nonneg calculate_max_time_nonneg by blast
qed

text \<open>Every lookup of the service without routes fails, and both costs are \<open>0\<close>.\<close>

theorem C4_cost_values_witness:
  "fst (lookup_route none_api (round_point (1, 1)) (round_point (0, 0))) = None
   \<and> fst (calculate_total_time none_api (1, 1) [(0, 0)] (Some [2])) = 0
   \<and> fst (calculate_max_time none_api (1, 1) [(0, 0)]) = 0"
  using C4_cost_values [of none_api "(1, 1)" "[(0, 0)]" "Some [2]"]
  by (simp add: lookup_route_def none_api_def)

text \<open>
  With weight \<open>3/2\<close> and a route of \<open>3\<close> seconds the sum is \<open>9/2\<close>; the cost
  returned is \<open>4\<close>.
\<close>

theorem C4_truncation_counterexample:
  "fst (lookup_route (const_api 3) (round_point (0, 0)) (round_point (0, 0))) = Some 3
   \<and> of_int (fst (calculate_total_time (const_api 3) (0, 0) [(0, 0)] (Some [3 / 2])))
       \<noteq> (3 / 2 :: rat) * of_int 3"
  by code_simp

section \<open>Properties of the search\<close>

text \<open>
  Claim C2. The probing loop is a total function: from every state, for every service,
  location list and weight list, it ends in a state whose radius is below the floor
  of \<open>0.0001\<close> degrees. Every iteration either halves the radius or lowers the
  non-negative integer metric, so the number of iterations is at most the number of
  floors that fit into the first radius plus the first metric.
\<close>

theorem C2_search_terminates:
  "radius (search_loop a alg cs ws s) < min_radius
   \<and> iteration_count (search_loop a alg cs ws s)
       \<le> iteration_count s + nat \<lfloor>radius s / min_radius\<rfloor> + nat (current_time s)"
proof (induction a alg cs ws s rule: search_loop.induct)
  case (1 a alg cs ws s)
  show ?case
  proof (cases "min_radius \<le> radius s")
    case False
    then show ?thesis by (simp add: search_loop.simps [of a alg cs ws s])
  next
    case True
    let ?s' = "iteration a alg cs ws s"
    have eq: "search_loop a alg cs ws s = search_loop a alg cs ws ?s'"
      using True by (simp add: search_loop.simps [of a alg cs ws s])
    have ih: "radius (search_loop a alg cs ws ?s') < min_radius
       \<and> iteration_count (search_loop a alg cs ws ?s')
           \<le> iteration_count ?s' + nat \<lfloor>radius ?s' / min_radius\<rfloor> + nat (current_time ?s')"
      using 1 [OF True] .
    have cnt: "iteration_count ?s' = iteration_count s + 1"
      by (simp add: iteration_def Let_def split: option.splits)
    have tm: "current_time ?s' \<le> current_time s"
      using probe_Some [of a alg cs ws "current_point s" "current_time s" "radius s"
                          directions "oracle_calls s"]
      by (auto simp: iteration_def Let_def split: option.splits)
    have "nat \<lfloor>radius ?s' / min_radius\<rfloor> + nat (current_time ?s') + 1
            \<le> nat \<lfloor>radius s / min_radius\<rfloor> + nat (current_time s)"
    proof -
      consider (halved) "nat \<lfloor>radius ?s' / min_radius\<rfloor> < nat \<lfloor>radius s / min_radius\<rfloor>"
        | (accepted) "radius ?s' = radius s" "0 \<le> current_time ?s'"
                     "current_time ?s' < current_time s"
        using iteration_progress [OF True, of a alg cs ws] by blast
      then show ?thesis
      proof cases
        case halved
        moreover have "nat (current_time ?s') \<le> nat (current_time s)"
          using tm by simp
        ultimately show ?thesis by linarith
      next
        case accepted
        then have "nat (current_time ?s') + 1 \<le> nat (current_time s)" by linarith
        then show ?thesis using accepted(1) by simp
      qed
    qed
    then show ?thesis using ih eq cnt by simp
  qed
qed

text \<open>From radius \<open>0.0009\<close> and a constant service the loop halves four times.\<close>

theorem C2_search_terminates_witness:
  "radius (search_loop (const_api 10) ''total_cost'' [(0, 0)] (Some [1]) (start_state 10))
     < min_radius
   \<and> iteration_count
        (search_loop (const_api 10) ''total_cost'' [(0, 0)] (Some [1]) (start_state 10)) \<le> 19
   \<and> iteration_count
        (search_loop (const_api 10) ''total_cost'' [(0, 0)] (Some [1]) (start_state 10)) = 4"
proof -
  have b: "iteration_count (start_state 10) + nat \<lfloor>radius (start_state 10) / min_radius\<rfloor>
             + nat (current_time (start_state 10)) = 19"
    by (simp add: start_state_def min_radius_def)
  have e: "iteration_count
        (search_loop (const_api 10) ''total_cost'' [(0, 0)] (Some [1]) (start_state 10)) = 4"
    by code_simp
  show ?thesis
    using C2_search_terminates [of "const_api 10" "''total_cost''" "[(0, 0)]" "Some [1]"
             "start_state 10"] b e
    by simp
qed

text \<open>
  One iteration, written out: the candidates are tried in the order of
  \<^verbatim>\<open>self.directions\<close>, the first one with a strictly lower metric is taken and
  the radius stays; when none is lower the point stays and the radius is halved.
  The first candidate adds the radius to \<^verbatim>\<open>current_point[0]\<close>, the latitude.
\<close>

lemma iteration_first_improvement:
  fixes s :: search_state and a :: api and alg :: string and cs :: "point list"
    and ws :: "rat list option"
  defines "cost \<equiv> \<lambda>q. fst (if alg = ''min_max_time'' then calculate_max_time a q cs
                                else calculate_total_time a q cs ws)"
  defines "lat \<equiv> fst (current_point s)" and "lng \<equiv> snd (current_point s)"
  defines "c1 \<equiv> (py_round6 (lat + radius s), py_round6 lng)"
      and "c2 \<equiv> (py_round6 lat, py_round6 (lng + radius s))"
      and "c3 \<equiv> (py_round6 (lat - radius s), py_round6 lng)"
      and "c4 \<equiv> (py_round6 lat, py_round6 (lng - radius s))"
  shows "(current_point (iteration a alg cs ws s), current_time (iteration a alg cs ws s),
          radius (iteration a alg cs ws s)) =
     (if cost c1 < current_time s then (c1, cost c1, radius s)
      else if cost c2 < current_time s then (c2, cost c2, radius s)
      else if cost c3 < current_time s then (c3, cost c3, radius s)
      else if cost c4 < current_time s then (c4, cost c4, radius s)
      else (current_point s, current_time s, radius s / 2))"
  unfolding cost_def c1_def c2_def c3_def c4_def lat_def lng_def
  by (simp add: iteration_def directions_def new_point_def Let_def)

text \<open>
  Claim C1 at a point where both the northern and the eastern candidate lower the
  metric. The probing loop names its directions East, North, West, South, and the
  candidate it names East is \<open>0.0009\<close> degrees of latitude north of the current
  point; it is accepted, although the candidate to the east is as good.
\<close>

theorem C1_first_probe_is_north:
  "map direction_name directions = [Some East, Some North, Some West, Some South]
   \<and> new_point (0, 0) (directions ! 0) (9 / 10000) = (9 / 10000, 0)
   \<and> fst (calculate_total_time downhill_api (0, 9 / 10000) [(0, 0)] (Some [1])) = 5
   \<and> current_time (start_state 10) = 10
   \<and> current_point (iteration downhill_api ''total_cost'' [(0, 0)] (Some [1]) (start_state 10))
       = (9 / 10000, 0)"
  by code_simp

section \<open>Properties of the reporting\<close>

lemma individual_times_loop_fst:
  "i + length cs \<le> length ws \<Longrightarrow>
     fst (individual_times_loop a p cs (Some ws) i acc calls) =
       Inr (acc @ map2 (\<lambda>j c. \<lparr>point_index = j, entry_coordinates = c,
                                time_seconds = fst (lookup_route a p c),
                                entry_weight = ws ! j\<rparr>)
                    [i..<i + length cs] cs)"
proof (induction cs arbitrary: i acc calls)
  case Nil
  then show ?case by simp
next
  case (Cons c cs)
  have "[i..<i + length (c # cs)] = i # [Suc i..<i + length (c # cs)]"
    by (rule upt_conv_Cons) simp
  then have "[i..<i + length (c # cs)] = i # [Suc i..<Suc i + length cs]"
    by simp
  then show ?case using Cons by (simp add: Let_def)
qed

lemma individual_times_loop_calls:
  "\<exists>more. snd (individual_times_loop a p cs w i acc calls) = calls @ more
          \<and> (cs \<noteq> [] \<longrightarrow> more \<noteq> [])"
proof (induction cs arbitrary: i acc calls)
  case Nil
  then show ?case by simp
next
  case (Cons c cs)
  have ne: "snd (lookup_route a p c) \<noteq> []"
    by (simp add: lookup_route_def split: option.splits)
  show ?case
  proof (cases w)
    case None
    then show ?thesis using ne by (simp add: Let_def)
  next
    case (Some ws)
    show ?thesis
    proof (cases "i < length ws")
      case False
      then show ?thesis using Some ne by (simp add: Let_def)
    next
      case True
      obtain more where
        "snd (individual_times_loop a p cs w (Suc i)
               (acc @ [\<lparr>point_index = i, entry_coordinates = c,
                        time_seconds = fst (lookup_route a p c), entry_weight = ws ! i\<rparr>])
               (calls @ snd (lookup_route a p c))) = (calls @ snd (lookup_route a p c)) @ more"
        using Cons.IH by blast
      then show ?thesis using Some True ne by (simp add: Let_def)
    qed
  qed
qed

lemma recompute_report_fst:
  assumes "length ws = length cs"
  shows "fst (recompute_report a cs ws meth par alg cls res calls) =
     Inr \<lparr>result =
            res\<lparr>total_time :=
                  fst (if alg = ''min_max_time''
                       then calculate_max_time a (optimal_point res) cs
                       else calculate_total_time a (optimal_point res) cs (Some ws)),
                pure_total_time := fst (calculate_pure_total_time a (optimal_point res) cs),
                individual_times :=
                  map2 (\<lambda>j c. \<lparr>point_index = j, entry_coordinates = c,
                                 time_seconds = fst (lookup_route a (optimal_point res) c),
                                 entry_weight = ws ! j\<rparr>)
                    [0..<length cs] cs\<rparr>,
          clusters = cls, cluster_count = length cls,
          clustering_method = meth, clustering_param = par\<rparr>"
  using assms
  by (simp add: recompute_report_def Let_def individual_times_loop_fst)

lemma clustered_result_shape:
  assumes "fst (find_optimal_point_with_clustering a cl cs weights meth par step alg)
             = Inr res"
  shows "\<exists>cls inner calls.
           length (case weights of None \<Rightarrow> replicate (length cs) 1 | Some l \<Rightarrow> l) = length cs
         \<and> fst (recompute_report a cs
                  (case weights of None \<Rightarrow> replicate (length cs) 1 | Some l \<Rightarrow> l)
                  meth par alg cls inner calls) = Inr res"
  using assms
  by (auto simp: find_optimal_point_with_clustering_def Let_def
           split: if_splits sum.splits option.splits)

text \<open>
  Claim C3. When \<^verbatim>\<open>find_optimal_point_with_clustering\<close> returns a result, its
  \<^verbatim>\<open>total_time\<close> is the objective evaluated from the final point over the
  caller's locations and weights, its \<^verbatim>\<open>pure_total_time\<close> the unweighted sum over
  the caller's locations, and \<^verbatim>\<open>individual_times\<close> has one entry per caller's
  location, in input order, whatever the clustering did: entry \<open>i\<close> carries index
  \<open>i\<close>, the \<open>i\<close>-th location, its weight and the looked-up time, which is
  \<^verbatim>\<open>None\<close> when the route is unknown.
\<close>

theorem C3_report_on_original_locations:
  assumes "fst (find_optimal_point_with_clustering a cl cs weights meth par step alg)
             = Inr res"
  shows "(let ws = (case weights of None \<Rightarrow> replicate (length cs) 1 | Some l \<Rightarrow> l);
              p = optimal_point (result res)
          in total_time (result res) =
               fst (if alg = ''min_max_time'' then calculate_max_time a p cs
                    else calculate_total_time a p cs (Some ws))
           \<and> pure_total_time (result res) = fst (calculate_pure_total_time a p cs)
           \<and> length (individual_times (result res)) = length cs
           \<and> (\<forall>i<length cs.
                 individual_times (result res) ! i =
                   \<lparr>point_index = i, entry_coordinates = cs ! i,
                    time_seconds = fst (lookup_route a p (cs ! i)),
                    entry_weight = ws ! i\<rparr>))"
proof -
  let ?ws = "case weights of None \<Rightarrow> replicate (length cs) 1 | Some l \<Rightarrow> l"
  obtain cls inner calls where
    len: "length ?ws = length cs" and
    rep: "fst (recompute_report a cs ?ws meth par alg cls inner calls) = Inr res"
    using clustered_result_shape [OF assms] by blast
  have res: "res = \<lparr>result =
            inner\<lparr>total_time :=
                  fst (if alg = ''min_max_time''
                       then calculate_max_time a (optimal_point inner) cs
                       else calculate_total_time a (optimal_point inner) cs (Some ?ws)),
                pure_total_time := fst (calculate_pure_total_time a (optimal_point inner) cs),
                individual_times :=
                  map2 (\<lambda>j c. \<lparr>point_index = j, entry_coordinates = c,
                                 time_seconds = fst (lookup_route a (optimal_point inner) c),
                                 entry_weight = ?ws ! j\<rparr>)
                    [0..<length cs] cs\<rparr>,
          clusters = cls, cluster_count = length cls,
          clustering_method = meth, clustering_param = par\<rparr>"
    using rep recompute_report_fst [OF len, of a meth par alg cls inner calls] by simp
  show ?thesis
    by (subst res, subst res, subst res, subst res, subst res) (simp add: Let_def)
qed


text \<open>
  Two locations in one cluster: the report has two entries, the second without a
  time.
\<close>

theorem C3_report_on_original_locations_witness:
  "fst (find_optimal_point_with_clustering near_api one_cluster [(0, 0), (2, 2)]
          (Some [1, 1]) ''HDBSCAN'' 5 50 ''total_cost'') =
     Inr \<lparr>result =
            \<lparr>optimal_point = (1, 1), total_time = 10, pure_total_time = 10,
             individual_times =
               [\<lparr>point_index = 0, entry_coordinates = (0, 0),
                 time_seconds = Some 10, entry_weight = 1\<rparr>,
                \<lparr>point_index = 1, entry_coordinates = (2, 2),
                 time_seconds = None, entry_weight = 1\<rparr>],
             logged_iterations = 4\<rparr>,
          clusters = [([(0, 0), (2, 2)], [1, 1])], cluster_count = 1,
          clustering_method = ''HDBSCAN'', clustering_param = 5\<rparr>
   \<and> fst (calculate_total_time near_api (1, 1) [(0, 0), (2, 2)] (Some [1, 1])) = 10
   \<and> fst (calculate_pure_total_time near_api (1, 1) [(0, 0), (2, 2)]) = 10
   \<and> fst (lookup_route near_api (1, 1) (2, 2)) = None"
proof -
  have h: "fst (find_optimal_point_with_clustering near_api one_cluster [(0, 0), (2, 2)]
          (Some [1, 1]) ''HDBSCAN'' 5 50 ''total_cost'') =
     Inr \<lparr>result =
            \<lparr>optimal_point = (1, 1), total_time = 10, pure_total_time = 10,
             individual_times =
               [\<lparr>point_index = 0, entry_coordinates = (0, 0),
                 time_seconds = Some 10, entry_weight = 1\<rparr>,
                \<lparr>point_index = 1, entry_coordinates = (2, 2),
                 time_seconds = None, entry_weight = 1\<rparr>],
             logged_iterations = 4\<rparr>,
          clusters = [([(0, 0), (2, 2)], [1, 1])], cluster_count = 1,
          clustering_method = ''HDBSCAN'', clustering_param = 5\<rparr>"
    by code_simp
  show ?thesis
    using C3_report_on_original_locations [OF h] h
    by (simp add: Let_def lookup_route_def near_api_def)
qed

section \<open>The arguments handed to the map service\<close>

text \<open>
  The three cost functions round both points of every call; rounding a rounded value
  changes nothing.
\<close>

lemma py_round6_of_int: "py_round6 (of_int n / 1000000) = of_int n / 1000000"
  by (simp add: py_round6_def rint_def)

lemma py_round6_idem: "py_round6 (py_round6 x) = py_round6 x"
  unfolding py_round6_def [of x] by (rule py_round6_of_int)

lemma round_point_idem: "round_point (round_point p) = round_point p"
  by (simp add: round_point_def py_round6_idem)

lemma lookup_route_calls: "set (snd (lookup_route a p c)) = {(p, c)}"
  by (auto simp: lookup_route_def split: option.splits)

lemma total_time_loop_calls:
  "set (snd (total_time_loop a rp xs acc calls))
     = set calls \<union> (\<lambda>x. (rp, round_point (fst x))) ` set xs"
proof (induction xs arbitrary: acc calls)
  case Nil
  then show ?case by simp
next
  case (Cons x xs)
  obtain c w where x: "x = (c, w)" by (cases x)
  show ?case
    unfolding x
    by (cases "fst (lookup_route a rp (round_point c))")
       (simp_all add: Let_def Cons.IH lookup_route_calls Un_assoc)
qed

lemma max_time_loop_calls:
  "set (snd (max_time_loop a rp cs m calls))
     = set calls \<union> (\<lambda>c. (rp, round_point c)) ` set cs"
  by (induction cs arbitrary: m calls)
     (auto simp: Let_def lookup_route_calls split: option.splits)

lemma pure_total_time_loop_calls:
  "set (snd (pure_total_time_loop a rp cs m calls))
     = set calls \<union> (\<lambda>c. (rp, round_point c)) ` set cs"
  by (induction cs arbitrary: m calls)
     (auto simp: Let_def lookup_route_calls split: option.splits)

lemma cost_calls_rounded:
  "(p, c) \<in> set (snd (calculate_total_time a q cs ws))
     \<or> (p, c) \<in> set (snd (calculate_max_time a q cs))
     \<or> (p, c) \<in> set (snd (calculate_pure_total_time a q cs))
   \<Longrightarrow> round_point p = p \<and> round_point c = c"
  by (auto simp: calculate_total_time_def calculate_max_time_def
                 calculate_pure_total_time_def Let_def total_time_loop_calls
                 max_time_loop_calls pure_total_time_loop_calls round_point_idem
           split: if_splits)

text \<open>
  Claim C9 on one location whose latitude has seven decimals, with search step
  \<open>0\<close> so that no probing happens. The first and the third call come from
  \<^verbatim>\<open>calculate_total_time\<close> and \<^verbatim>\<open>calculate_pure_total_time\<close> and have a rounded
  destination; the second is the per-location pass, which hands the location over as
  the caller gave it.
\<close>

theorem C9_secondary_pass_unrounded:
  "snd (find_optimal_point (const_api 10) one_cluster [(1234567 / 10000000, 0)] (Some [1])
          PyNone (PyInt 5) 10 0 ''total_cost'') =
     [((123457 / 1000000, 0), (123457 / 1000000, 0)),
      ((123457 / 1000000, 0), (1234567 / 10000000, 0)),
      ((123457 / 1000000, 0), (123457 / 1000000, 0))]
   \<and> round_point (1234567 / 10000000, 0) = (123457 / 1000000, 0)
   \<and> round_point (1234567 / 10000000, 0) \<noteq> (1234567 / 10000000, 0)"
  by code_simp

section \<open>The search step of the clustered entry point\<close>

text \<open>
  Claim C6 on one location with search step \<open>50\<close>. The second call of a search
  is its first probe. Called directly, the search probes at \<open>50 \<times> 0.000009\<close>
  degrees and stops after three halvings; through
  \<^verbatim>\<open>find_optimal_point_with_clustering\<close> it probes at \<open>100 \<times> 0.000009\<close>
  degrees and stops after four.
\<close>

theorem C6_clustered_search_step_ignored:
  "snd (find_optimal_point (const_api 10) one_cluster [(0, 0)] (Some [1])
          PyNone (PyInt 5) 10 50 ''total_cost'') ! 1 = ((9 / 20000, 0), (0, 0))
   \<and> snd (find_optimal_point_with_clustering (const_api 10) one_cluster [(0, 0)] (Some [1])
            ''HDBSCAN'' 5 50 ''total_cost'') ! 1 = ((9 / 10000, 0), (0, 0))
   \<and> map_option logged_iterations
        (projr (fst (find_optimal_point (const_api 10) one_cluster [(0, 0)] (Some [1])
                       PyNone (PyInt 5) 10 50 ''total_cost''))) = Some 3
   \<and> logged_iterations
        (result (projr (fst (find_optimal_point_with_clustering (const_api 10) one_cluster
                               [(0, 0)] (Some [1]) ''HDBSCAN'' 5 50 ''total_cost'')))) = 4"
  by code_simp

text \<open>
  More generally the clustered entry point never reads its search step as a step: any
  two non-zero steps give the same outcome.
\<close>

lemma clustered_search_step_unused:
  assumes "step \<noteq> 0" and "step' \<noteq> 0"
  shows "find_optimal_point_with_clustering a cl cs ws meth par step alg
           = find_optimal_point_with_clustering a cl cs ws meth par step' alg"
proof -
  have ip: "initial_point cl xs ys (PyInt step) mcs mx = initial_point cl xs ys (PyInt step') mcs mx"
    for xs ys mcs mx
    using assms by (simp add: initial_point_def cluster_centers_def Let_def)
  have f: "find_optimal_point a cl xs ys (PyInt step) mcs mx k t
          = find_optimal_point a cl xs ys (PyInt step') mcs mx k t" for xs ys mcs mx k t
    unfolding find_optimal_point_def ip ..
  show ?thesis
    unfolding find_optimal_point_with_clustering_def f ..
qed


section \<open>Input validation\<close>

lemma calculate_centroid_Some:
  "cs \<noteq> [] \<Longrightarrow> \<exists>c. calculate_centroid cs ws = Some c"
  by (simp add: calculate_centroid_def Let_def)

lemma find_optimal_point_returns:
  assumes "cs \<noteq> []" and "length cs \<le> cluster_threshold" and "length ws = length cs"
  shows "(\<exists>res. fst (find_optimal_point a cl cs (Some ws) cm mcs mx step alg) = Inr (Some res))
         \<and> snd (find_optimal_point a cl cs (Some ws) cm mcs mx step alg) \<noteq> []"
proof -
  obtain c where c: "calculate_centroid cs (Some ws) = Some c"
    using calculate_centroid_Some [OF assms(1)] by blast
  have ip: "initial_point cl cs (Some ws) cm mcs mx = Inr (coords_of c)"
    using assms(2) c by (simp add: initial_point_def Let_def)
  have t: "\<exists>entries. fst (individual_times_loop a p cs (Some ws) 0 [] calls) = Inr entries"
    for p calls
    using assms(3) by (simp add: individual_times_loop_fst)
  have n: "snd (individual_times_loop a p cs (Some ws) 0 [] calls) \<noteq> []" for p calls
    using individual_times_loop_calls [of a p cs "Some ws" 0 "[]" calls] assms(1) by auto
  let ?first = "if alg = ''min_max_time'' then calculate_max_time a (coords_of c) cs
                else calculate_total_time a (coords_of c) cs (Some ws)"
  let ?final = "search_loop a alg cs (Some ws)
                  \<lparr>current_point = coords_of c, current_time = fst ?first,
                   radius = of_int step * (9 / 1000000),
                   iteration_count = 0, oracle_calls = snd ?first\<rparr>"
  obtain entries where
    e: "fst (individual_times_loop a (current_point ?final) cs (Some ws) 0 []
               (oracle_calls ?final)) = Inr entries"
    using t by blast
  have f: "find_optimal_point a cl cs (Some ws) cm mcs mx step alg =
     (let pure = calculate_pure_total_time a (current_point ?final) cs
      in (Inr (Some \<lparr>optimal_point = current_point ?final,
                     total_time = current_time ?final,
                     pure_total_time = fst pure,
                     individual_times = entries,
                     logged_iterations = iteration_count ?final\<rparr>),
          snd (individual_times_loop a (current_point ?final) cs (Some ws) 0 []
                 (oracle_calls ?final)) @ snd pure))"
    unfolding find_optimal_point_def Let_def ip using assms(1) e by simp
  show ?thesis
    unfolding f Let_def using n by simp
qed

text \<open>
  Claim C7, as the code has it. \<^verbatim>\<open>find_optimal_point_with_clustering\<close> raises a
  \<^verbatim>\<open>ValueError\<close> for an empty location list and for lists of different lengths,
  and \<^verbatim>\<open>find_optimal_point\<close> returns \<^verbatim>\<open>None\<close> for an empty list, each before
  any call to the map service. Neither entry point looks at the sign of a weight or of
  the search step: for a non-empty list of at most twenty locations and a weight list
  of the same length, \<^verbatim>\<open>find_optimal_point\<close> calls the service and returns a
  result for every weight list and every step.
\<close>

theorem C7_input_validation:
  "find_optimal_point_with_clustering a cl [] weights meth par step alg
     = (Inl ValueError_empty_coordinates, [])
   \<and> (cs \<noteq> [] \<and> length ws \<noteq> length cs \<longrightarrow>
        find_optimal_point_with_clustering a cl cs (Some ws) meth par step alg
          = (Inl ValueError_length_mismatch, []))
   \<and> find_optimal_point a cl [] weights cm mcs mx step alg = (Inr None, [])
   \<and> (cs \<noteq> [] \<and> length cs \<le> cluster_threshold \<and> length ws = length cs \<longrightarrow>
        (\<exists>res. fst (find_optimal_point a cl cs (Some ws) cm mcs mx step alg) = Inr (Some res))
        \<and> snd (find_optimal_point a cl cs (Some ws) cm mcs mx step alg) \<noteq> [])"
proof -
  have 1: "find_optimal_point_with_clustering a cl [] weights meth par step alg
     = (Inl ValueError_empty_coordinates, [])"
    by (simp add: find_optimal_point_with_clustering_def)
  have 2: "find_optimal_point_with_clustering a cl cs (Some ws) meth par step alg
          = (Inl ValueError_length_mismatch, [])" if "cs \<noteq> []" "length ws \<noteq> length cs"
    using that by (auto simp: find_optimal_point_with_clustering_def Let_def)
  have 3: "find_optimal_point a cl [] weights cm mcs mx step alg = (Inr None, [])"
    by (simp add: find_optimal_point_def)
  show ?thesis
    using 1 2 3 find_optimal_point_returns [of cs ws a cl cm mcs mx step alg] by blast
qed

text \<open>
  A weight list that is too long is refused; weight \<open>-1\<close> with step \<open>0\<close> is
  searched.
\<close>

theorem C7_input_validation_witness:
  "[(0, 0)] \<noteq> ([] :: point list) \<and> length [1, 2 :: rat] \<noteq> length [(0, 0) :: point]
   \<and> find_optimal_point_with_clustering (const_api 10) one_cluster [(0, 0)] (Some [1, 2])
        ''HDBSCAN'' 5 100 ''total_cost'' = (Inl ValueError_length_mismatch, [])
   \<and> length [(0, 0) :: point] \<le> cluster_threshold
   \<and> length [- 1 :: rat] = length [(0, 0) :: point]
   \<and> (\<exists>res. fst (find_optimal_point (const_api 10) one_cluster [(0, 0)] (Some [- 1])
                      PyNone (PyInt 5) 10 0 ''total_cost'') = Inr (Some res))
   \<and> snd (find_optimal_point (const_api 10) one_cluster [(0, 0)] (Some [- 1])
            PyNone (PyInt 5) 10 0 ''total_cost'') \<noteq> []"
  using C7_input_validation [where a = "const_api 10" and cl = one_cluster
          and meth = "''HDBSCAN''" and par = 5 and step = 100 and alg = "''total_cost''"
          and cs = "[(0, 0)]" and ws = "[1, 2]"]
        C7_input_validation [where a = "const_api 10" and cl = one_cluster
          and step = 0 and alg = "''total_cost''" and cs = "[(0, 0)]" and ws = "[- 1]"
          and cm = PyNone and mcs = "PyInt 5" and mx = 10]
  by (simp add: cluster_threshold_def)

text \<open>
  Weight \<open>-1\<close> and search step \<open>0\<close>: both entry points return a result, after
  calls to the service, and the weighted cost of the negative weight is reported as
  \<open>0\<close>.
\<close>

theorem C7_unchecked_input_counterexample:
  "find_optimal_point (const_api 10) one_cluster [(0, 0)] (Some [- 1])
     PyNone (PyInt 5) 10 0 ''total_cost'' =
     (Inr (Some \<lparr>optimal_point = (0, 0), total_time = 0, pure_total_time = 10,
                 individual_times =
                   [\<lparr>point_index = 0, entry_coordinates = (0, 0),
                     time_seconds = Some 10, entry_weight = - 1\<rparr>],
                 logged_iterations = 0\<rparr>),
      [((0, 0), (0, 0)), ((0, 0), (0, 0)), ((0, 0), (0, 0))])
   \<and> fst (find_optimal_point_with_clustering (const_api 10) one_cluster [(0, 0)]
            (Some [- 1]) ''HDBSCAN'' 5 0 ''total_cost'') =
     Inr \<lparr>result =
            \<lparr>optimal_point = (0, 0), total_time = 0, pure_total_time = 10,
             individual_times =
               [\<lparr>point_index = 0, entry_coordinates = (0, 0),
                 time_seconds = Some 10, entry_weight = - 1\<rparr>],
             logged_iterations = 4\<rparr>,
          clusters = [([(0, 0)], [- 1])], cluster_count = 1,
          clustering_method = ''HDBSCAN'', clustering_param = 5\<rparr>"
  by code_simp

section \<open>Clustering at the boundary\<close>

lemma singletons_nth:
  assumes "length ws = length cs"
  shows "\<exists>vs. singletons cs (Some ws) = Inr vs \<and> length vs = length cs
           \<and> (\<forall>i<length cs. vs ! i = (CentroidTuple (cs ! i), ws ! i))"
  using assms by (simp add: singletons_def)

text \<open>
  Claim C8, as the code has it. Below the minimum cluster size \<^verbatim>\<open>apply_hdbscan\<close>,
  and up to the maximum cluster size \<^verbatim>\<open>apply_capacity_kmeans\<close>, return one
  centre per location, with the location's coordinate and weight. In the same
  situations \<^verbatim>\<open>_perform_clustering\<close> returns the whole input as one cluster.
\<close>

theorem C8_clustering_below_threshold:
  "(int (length cs) < m \<and> length ws = length cs \<longrightarrow>
      (\<exists>vs. apply_hdbscan cl cs (Some ws) (PyInt m) = Inr vs \<and> length vs = length cs
          \<and> (\<forall>i<length cs. vs ! i = (CentroidTuple (cs ! i), ws ! i))))
   \<and> (int (length cs) \<le> mx \<and> length ws = length cs \<longrightarrow>
      (\<exists>vs. apply_capacity_kmeans cl cs (Some ws) mx = Inr vs \<and> length vs = length cs
          \<and> (\<forall>i<length cs. vs ! i = (CentroidTuple (cs ! i), ws ! i))))
   \<and> (cs \<noteq> [] \<and> lower meth = ''hdbscan''
        \<and> int (length cs) < (if 0 < par then par else 5) \<longrightarrow>
      perform_clustering cl cs ws meth par = Inr [(cs, ws)])
   \<and> (cs \<noteq> [] \<and> lower meth = ''kmeans''
        \<and> int (length cs) \<le> (if 0 < par then par else 10) \<longrightarrow>
      perform_clustering cl cs ws meth par = Inr [(cs, ws)])"
proof -
  have h: "\<exists>vs. apply_hdbscan cl cs (Some ws) (PyInt m) = Inr vs \<and> length vs = length cs
          \<and> (\<forall>i<length cs. vs ! i = (CentroidTuple (cs ! i), ws ! i))"
    if "int (length cs) < m" "length ws = length cs"
    using that singletons_nth [of ws cs] by (simp add: apply_hdbscan_def)
  have k: "\<exists>vs. apply_capacity_kmeans cl cs (Some ws) mx = Inr vs \<and> length vs = length cs
          \<and> (\<forall>i<length cs. vs ! i = (CentroidTuple (cs ! i), ws ! i))"
    if "int (length cs) \<le> mx" "length ws = length cs"
    using that singletons_nth [of ws cs] by (simp add: apply_capacity_kmeans_def)
  have p1: "perform_clustering cl cs ws meth par = Inr [(cs, ws)]"
    if "cs \<noteq> []" "lower meth = ''hdbscan''"
       "int (length cs) < (if 0 < par then par else 5)"
    using that by (simp add: perform_clustering_def Let_def)
  have p2: "perform_clustering cl cs ws meth par = Inr [(cs, ws)]"
    if "cs \<noteq> []" "lower meth = ''kmeans''"
       "int (length cs) \<le> (if 0 < par then par else 10)"
    using that by (simp add: perform_clustering_def Let_def)
  show ?thesis using h k p1 p2 by blast
qed

text \<open>Two locations under each of the four boundary conditions.\<close>

theorem C8_clustering_below_threshold_witness:
  "int (length [(0, 0), (2, 2) :: point]) < 5
   \<and> length [1, 3 :: rat] = length [(0, 0), (2, 2) :: point]
   \<and> apply_hdbscan one_cluster [(0, 0), (2, 2)] (Some [1, 3]) (PyInt 5)
        = Inr [(CentroidTuple (0, 0), 1), (CentroidTuple (2, 2), 3)]
   \<and> int (length [(0, 0), (2, 2) :: point]) \<le> 2
   \<and> apply_capacity_kmeans one_cluster [(0, 0), (2, 2)] (Some [1, 3]) 2
        = Inr [(CentroidTuple (0, 0), 1), (CentroidTuple (2, 2), 3)]
   \<and> lower ''HDBSCAN'' = ''hdbscan'' \<and> lower ''KMeans'' = ''kmeans''
   \<and> perform_clustering one_cluster [(0, 0), (2, 2)] [1, 3] ''HDBSCAN'' 5
        = Inr [([(0, 0), (2, 2)], [1, 3])]
   \<and> perform_clustering one_cluster [(0, 0), (2, 2)] [1, 3] ''KMeans'' 2
        = Inr [([(0, 0), (2, 2)], [1, 3])]"
proof -
  have l1: "lower ''HDBSCAN'' = ''hdbscan''" by code_simp
  have l2: "lower ''KMeans'' = ''kmeans''" by code_simp
  have a: "apply_hdbscan one_cluster [(0, 0), (2, 2)] (Some [1, 3]) (PyInt 5)
        = Inr [(CentroidTuple (0, 0), 1), (CentroidTuple (2, 2), 3)]"
    by (simp add: apply_hdbscan_def singletons_def)
  have b: "apply_capacity_kmeans one_cluster [(0, 0), (2, 2)] (Some [1, 3]) 2
        = Inr [(CentroidTuple (0, 0), 1), (CentroidTuple (2, 2), 3)]"
    by (simp add: apply_capacity_kmeans_def singletons_def)
  show ?thesis
    using C8_clustering_below_threshold [where cs = "[(0, 0), (2, 2)]" and m = 5
            and ws = "[1, 3]" and cl = one_cluster and mx = 2 and meth = "''HDBSCAN''"
            and par = 5]
          C8_clustering_below_threshold [where cs = "[(0, 0), (2, 2)]" and m = 5
            and ws = "[1, 3]" and cl = one_cluster and mx = 2 and meth = "''KMeans''"
            and par = 2]
          l1 l2 a b
    by simp
qed

text \<open>
  Two locations of weight \<open>1\<close> with minimum cluster size \<open>5\<close> on the path of
  \<^verbatim>\<open>find_optimal_point_with_clustering\<close>: one cluster, hence one virtual location,
  the midpoint with weight \<open>2\<close>.
\<close>

theorem C8_single_cluster_counterexample:
  "int (length [(0, 0), (2, 2) :: point]) < 5
   \<and> perform_clustering one_cluster [(0, 0), (2, 2)] [1, 1] ''HDBSCAN'' 5
        = Inr [([(0, 0), (2, 2)], [1, 1])]
   \<and> cluster_centroids [([(0, 0), (2, 2)], [1, 1])] = Inr [((1, 1), 2)]"
  by code_simp


section \<open>The objective tag\<close>

lemma probe_other_tag:
  assumes "alg \<noteq> ''min_max_time''"
  shows "probe a alg cs ws p t r ds calls = probe a ''total_cost'' cs ws p t r ds calls"
proof (induction ds arbitrary: calls)
  case Nil
  show ?case by simp
next
  case (Cons d ds)
  show ?case
    unfolding probe.simps Cons.IH using assms by simp
qed

lemma iteration_other_tag:
  assumes "alg \<noteq> ''min_max_time''"
  shows "iteration a alg cs ws s = iteration a ''total_cost'' cs ws s"
  unfolding iteration_def probe_other_tag [OF assms] ..

lemma search_loop_other_tag:
  assumes "alg \<noteq> ''min_max_time''"
  shows "search_loop a alg cs ws s = search_loop a ''total_cost'' cs ws s"
  using assms
proof (induction a alg cs ws s rule: search_loop.induct)
  case (1 a alg cs ws s)
  show ?case
  proof (cases "min_radius \<le> radius s")
    case True
    have "search_loop a alg cs ws s = search_loop a alg cs ws (iteration a alg cs ws s)"
      using True by (subst search_loop.simps) simp
    also have "\<dots> = search_loop a ''total_cost'' cs ws (iteration a alg cs ws s)"
      using 1 True by blast
    also have "\<dots> = search_loop a ''total_cost'' cs ws (iteration a ''total_cost'' cs ws s)"
      unfolding iteration_other_tag [OF 1(2)] ..
    also have "\<dots> = search_loop a ''total_cost'' cs ws s"
      using True by (subst (2) search_loop.simps) simp
    finally show ?thesis .
  next
    case False
    have "search_loop a alg cs ws s = s"
      using False by (subst search_loop.simps) simp
    moreover have "search_loop a ''total_cost'' cs ws s = s"
      using False by (subst search_loop.simps) simp
    ultimately show ?thesis by simp
  qed
qed

lemma initial_point_int_method:
  "initial_point cl cs ws (PyInt k) mcs mx = initial_point cl cs ws (PyInt k) mcs' mx"
  by (simp add: initial_point_def cluster_centers_def Let_def)

lemma find_optimal_point_int_method:
  "find_optimal_point a cl cs ws (PyInt k) mcs mx step alg
     = find_optimal_point a cl cs ws (PyInt k) mcs' mx step alg"
  unfolding find_optimal_point_def initial_point_int_method [of cl cs ws k mcs mx mcs'] ..

text \<open>
  The metric carried by the search is the objective of the tag at the current point:
  the first cost sets it so, an accepted candidate brings its own cost, and a halving
  changes neither.
\<close>

lemma probe_Some_metric:
  "fst (probe a alg cs ws p t r ds calls) = Some (q, m) \<Longrightarrow>
     m = fst (if alg = ''min_max_time'' then calculate_max_time a q cs
              else calculate_total_time a q cs ws)"
proof (induction ds arbitrary: calls)
  case Nil
  then show ?case by simp
next
  case (Cons d ds)
  show ?case
  proof (cases "fst (if alg = ''min_max_time'' then calculate_max_time a (new_point p d r) cs
                     else calculate_total_time a (new_point p d r) cs ws) < t")
    case True
    then show ?thesis using Cons.prems by (auto simp: Let_def)
  next
    case False
    then have "fst (probe a alg cs ws p t r ds
                      (calls @ snd (if alg = ''min_max_time''
                                    then calculate_max_time a (new_point p d r) cs
                                    else calculate_total_time a (new_point p d r) cs ws)))
                 = Some (q, m)"
      using Cons.prems by (simp add: Let_def)
    then show ?thesis by (rule Cons.IH)
  qed
qed

lemma iteration_keeps_metric:
  assumes "current_time s =
             fst (if alg = ''min_max_time'' then calculate_max_time a (current_point s) cs
                  else calculate_total_time a (current_point s) cs ws)"
  shows "current_time (iteration a alg cs ws s) =
           fst (if alg = ''min_max_time''
                then calculate_max_time a (current_point (iteration a alg cs ws s)) cs
                else calculate_total_time a (current_point (iteration a alg cs ws s)) cs ws)"
proof (cases "fst (probe a alg cs ws (current_point s) (current_time s) (radius s)
                     directions (oracle_calls s))")
  case None
  have cp: "current_point (iteration a alg cs ws s) = current_point s"
    and ct: "current_time (iteration a alg cs ws s) = current_time s"
    using None by (simp_all add: iteration_def Let_def)
  show ?thesis unfolding cp ct by (rule assms)
next
  case (Some found)
  obtain q m where f: "found = (q, m)" by (cases found)
  have m: "m = fst (if alg = ''min_max_time'' then calculate_max_time a q cs
                    else calculate_total_time a q cs ws)"
    using Some f probe_Some_metric [of a alg cs ws "current_point s" "current_time s"
                                       "radius s" directions "oracle_calls s" q m]
    by simp
  have cp: "current_point (iteration a alg cs ws s) = q"
    and ct: "current_time (iteration a alg cs ws s) = m"
    using Some f by (simp_all add: iteration_def Let_def)
  show ?thesis unfolding cp ct by (rule m)
qed

lemma search_loop_keeps_metric:
  assumes "current_time s =
             fst (if alg = ''min_max_time'' then calculate_max_time a (current_point s) cs
                  else calculate_total_time a (current_point s) cs ws)"
  shows "current_time (search_loop a alg cs ws s) =
           fst (if alg = ''min_max_time''
                then calculate_max_time a (current_point (search_loop a alg cs ws s)) cs
                else calculate_total_time a (current_point (search_loop a alg cs ws s)) cs ws)"
  using assms
proof (induction a alg cs ws s rule: search_loop.induct)
  case (1 a alg cs ws s)
  show ?case
  proof (cases "min_radius \<le> radius s")
    case True
    have eq: "search_loop a alg cs ws s = search_loop a alg cs ws (iteration a alg cs ws s)"
      using True by (subst search_loop.simps) simp
    show ?thesis
      unfolding eq
      by (rule "1.IH" [OF True iteration_keeps_metric [OF "1.prems"]])
  next
    case False
    have stop: "search_loop a alg cs ws s = s"
      using False by (subst search_loop.simps) simp
    show ?thesis unfolding stop by (rule "1.prems")
  qed
qed

lemma find_optimal_point_total_time:
  assumes "fst (find_optimal_point a cl cs ws cm mcs mx step alg) = Inr (Some res)"
  shows "total_time res =
           fst (if alg = ''min_max_time'' then calculate_max_time a (optimal_point res) cs
                else calculate_total_time a (optimal_point res) cs ws)"
proof -
  obtain start where ip: "initial_point cl cs ws cm mcs mx = Inr start"
    using assms by (auto simp: find_optimal_point_def split: if_splits sum.splits)
  let ?first = "if alg = ''min_max_time'' then calculate_max_time a start cs
                else calculate_total_time a start cs ws"
  let ?init = "\<lparr>current_point = start, current_time = fst ?first,
                 radius = of_int step * (9 / 1000000),
                 iteration_count = 0, oracle_calls = snd ?first\<rparr>"
  let ?final = "search_loop a alg cs ws ?init"
  have res: "optimal_point res = current_point ?final \<and> total_time res = current_time ?final"
    using assms ip
    by (auto simp: find_optimal_point_def Let_def split: if_splits sum.splits)
  have "current_time ?init =
          fst (if alg = ''min_max_time'' then calculate_max_time a (current_point ?init) cs
               else calculate_total_time a (current_point ?init) cs ws)"
    by simp
  from search_loop_keeps_metric [OF this] show ?thesis using res by simp
qed

text \<open>
  What one round of probing finds: the first candidate, in the order of the
  directions, whose cost under the objective of the tag is below the current metric.
\<close>

lemma probe_finds_first:
  "fst (probe a alg cs ws p t r ds calls) =
     List.find (\<lambda>qm. snd qm < t)
       (map (\<lambda>d. (new_point p d r,
                   fst (if alg = ''min_max_time'' then calculate_max_time a (new_point p d r) cs
                        else calculate_total_time a (new_point p d r) cs ws)))
            ds)"
  by (induction ds arbitrary: calls) (simp_all add: Let_def)

lemma iteration_by_find:
  "(current_point (iteration a alg cs ws s), current_time (iteration a alg cs ws s),
    radius (iteration a alg cs ws s)) =
     (case List.find (\<lambda>qm. snd qm < current_time s)
             (map (\<lambda>d. (new_point (current_point s) d (radius s),
                         fst (if alg = ''min_max_time''
                              then calculate_max_time a
                                     (new_point (current_point s) d (radius s)) cs
                              else calculate_total_time a
                                     (new_point (current_point s) d (radius s)) cs ws)))
                  directions) of
        Some qm \<Rightarrow> (fst qm, snd qm, radius s)
      | None \<Rightarrow> (current_point s, current_time s, radius s / 2))"
proof -
  have p: "fst (probe a alg cs ws (current_point s) (current_time s) (radius s) directions
                  (oracle_calls s)) =
     List.find (\<lambda>qm. snd qm < current_time s)
             (map (\<lambda>d. (new_point (current_point s) d (radius s),
                         fst (if alg = ''min_max_time''
                              then calculate_max_time a
                                     (new_point (current_point s) d (radius s)) cs
                              else calculate_total_time a
                                     (new_point (current_point s) d (radius s)) cs ws)))
                  directions)"
    by (rule probe_finds_first)
  show ?thesis
    unfolding p [symmetric]
    by (cases "fst (probe a alg cs ws (current_point s) (current_time s) (radius s)
                      directions (oracle_calls s))")
       (simp_all add: iteration_def Let_def)
qed

lemma find_optimal_point_first_cost:
  assumes "of_int step * (9 / 1000000) < min_radius"
    and "initial_point cl cs ws cm mcs mx = Inr start"
    and "fst (find_optimal_point a cl cs ws cm mcs mx step alg) = Inr (Some res)"
  shows "optimal_point res = start
       \<and> total_time res =
           fst (if alg = ''min_max_time'' then calculate_max_time a start cs
                else calculate_total_time a start cs ws)"
proof -
  let ?first = "if alg = ''min_max_time'' then calculate_max_time a start cs
                else calculate_total_time a start cs ws"
  let ?init = "\<lparr>current_point = start, current_time = fst ?first,
                 radius = of_int step * (9 / 1000000),
                 iteration_count = 0, oracle_calls = snd ?first\<rparr>"
  have stop: "search_loop a alg cs ws ?init = ?init"
    using assms(1) by (subst search_loop.simps) simp
  have "optimal_point res = current_point (search_loop a alg cs ws ?init)
      \<and> total_time res = current_time (search_loop a alg cs ws ?init)"
    using assms(2,3)
    by (auto simp: find_optimal_point_def Let_def split: if_splits sum.splits)
  then show ?thesis unfolding stop by simp
qed

lemma clustered_total_time:
  assumes "fst (find_optimal_point_with_clustering a cl cs ws meth par step alg) = Inr r"
  shows "total_time (result r) =
           fst (if alg = ''min_max_time''
                then calculate_max_time a (optimal_point (result r)) cs
                else calculate_total_time a (optimal_point (result r)) cs
                       (Some (case ws of None \<Rightarrow> replicate (length cs) 1 | Some l \<Rightarrow> l)))"
proof -
  let ?ws = "case ws of None \<Rightarrow> replicate (length cs) 1 | Some l \<Rightarrow> l"
  obtain cls inner calls where
    len: "length ?ws = length cs" and
    rep: "fst (recompute_report a cs ?ws meth par alg cls inner calls) = Inr r"
    using clustered_result_shape [OF assms] by blast
  have "optimal_point (result r) = optimal_point inner
      \<and> total_time (result r) =
          fst (if alg = ''min_max_time'' then calculate_max_time a (optimal_point inner) cs
               else calculate_total_time a (optimal_point inner) cs (Some ?ws))"
    using rep recompute_report_fst [OF len, of a meth par alg cls inner calls] by auto
  then show ?thesis by simp
qed

text \<open>
  Claim C10. A tag other than the exact string \<^verbatim>\<open>min_max_time\<close> is never refused:
  both entry points return what they return for \<^verbatim>\<open>total_cost\<close>. For such a tag the
  weighted sum \<^verbatim>\<open>calculate_total_time\<close> is the objective in each place: the first
  cost (a search whose radius starts below the floor reports the weighted sum at the
  initial point), the probing (one iteration takes the first candidate whose weighted
  sum is below the current metric, or halves the radius), the metric reported by
  \<^verbatim>\<open>find_optimal_point\<close> (the weighted sum at the final point) and the final
  recomputation of \<^verbatim>\<open>find_optimal_point_with_clustering\<close> (the weighted sum over
  the caller's locations). For the exact tag the same places use
  \<^verbatim>\<open>calculate_max_time\<close>.
\<close>

theorem C10_objective_dispatch:
  assumes "alg \<noteq> ''min_max_time''"
  shows "find_optimal_point a cl cs ws cm mcs mx step alg
           = find_optimal_point a cl cs ws cm mcs mx step ''total_cost''
       \<and> find_optimal_point_with_clustering a cl cs ws meth par step alg
           = find_optimal_point_with_clustering a cl cs ws meth par step ''total_cost''
       \<and> (\<forall>start res.
             of_int step * (9 / 1000000) < min_radius
             \<and> initial_point cl cs ws cm mcs mx = Inr start
             \<and> fst (find_optimal_point a cl cs ws cm mcs mx step alg) = Inr (Some res) \<longrightarrow>
             optimal_point res = start
             \<and> total_time res = fst (calculate_total_time a start cs ws))
       \<and> (current_point (iteration a alg cs ws s), current_time (iteration a alg cs ws s),
           radius (iteration a alg cs ws s)) =
            (case List.find (\<lambda>qm. snd qm < current_time s)
                    (map (\<lambda>d. (new_point (current_point s) d (radius s),
                                fst (calculate_total_time a
                                       (new_point (current_point s) d (radius s)) cs ws)))
                         directions) of
               Some qm \<Rightarrow> (fst qm, snd qm, radius s)
             | None \<Rightarrow> (current_point s, current_time s, radius s / 2))
       \<and> (\<forall>res. fst (find_optimal_point a cl cs ws cm mcs mx step alg) = Inr (Some res) \<longrightarrow>
             total_time res = fst (calculate_total_time a (optimal_point res) cs ws))
       \<and> (\<forall>r. fst (find_optimal_point_with_clustering a cl cs ws meth par step alg) = Inr r \<longrightarrow>
             total_time (result r) =
               fst (calculate_total_time a (optimal_point (result r)) cs
                      (Some (case ws of None \<Rightarrow> replicate (length cs) 1 | Some l \<Rightarrow> l))))
       \<and> (current_point (iteration a ''min_max_time'' cs ws s),
           current_time (iteration a ''min_max_time'' cs ws s),
           radius (iteration a ''min_max_time'' cs ws s)) =
            (case List.find (\<lambda>qm. snd qm < current_time s)
                    (map (\<lambda>d. (new_point (current_point s) d (radius s),
                                fst (calculate_max_time a
                                       (new_point (current_point s) d (radius s)) cs)))
                         directions) of
               Some qm \<Rightarrow> (fst qm, snd qm, radius s)
             | None \<Rightarrow> (current_point s, current_time s, radius s / 2))
       \<and> (\<forall>res. fst (find_optimal_point a cl cs ws cm mcs mx step ''min_max_time'')
                    = Inr (Some res) \<longrightarrow>
             total_time res = fst (calculate_max_time a (optimal_point res) cs))
       \<and> (\<forall>r. fst (find_optimal_point_with_clustering a cl cs ws meth par step
                      ''min_max_time'') = Inr r \<longrightarrow>
             total_time (result r) = fst (calculate_max_time a (optimal_point (result r)) cs))"
proof -
  have t1: "(alg = ''min_max_time'') = False" using assms by simp
  have t2: "(''total_cost'' = ''min_max_time'') = False" by simp
  have d: "find_optimal_point a cl cs ws cm mcs mx step alg
           = find_optimal_point a cl cs ws cm mcs mx step ''total_cost''"
    unfolding find_optimal_point_def search_loop_other_tag [OF assms] t1 t2 if_False ..
  have r: "recompute_report a cs l meth par alg cls res calls
         = recompute_report a cs l meth par ''total_cost'' cls res calls"
    for l cls res calls
    unfolding recompute_report_def t1 t2 if_False ..
  have i: "find_optimal_point a cl xs ys (PyInt step) (PyStr alg) 10 100 ''total_cost''
         = find_optimal_point a cl xs ys (PyInt step) (PyStr ''total_cost'') 10 100 ''total_cost''"
    for xs ys
    by (rule find_optimal_point_int_method)
  have c: "find_optimal_point_with_clustering a cl cs ws meth par step alg
           = find_optimal_point_with_clustering a cl cs ws meth par step ''total_cost''"
    unfolding find_optimal_point_with_clustering_def r i ..
  have first: "optimal_point res = start
               \<and> total_time res = fst (calculate_total_time a start cs ws)"
    if "of_int step * (9 / 1000000) < min_radius"
       "initial_point cl cs ws cm mcs mx = Inr start"
       "fst (find_optimal_point a cl cs ws cm mcs mx step alg) = Inr (Some res)"
    for start res
    using find_optimal_point_first_cost [OF that] assms by simp
  have pr: "(current_point (iteration a alg cs ws s), current_time (iteration a alg cs ws s),
           radius (iteration a alg cs ws s)) =
            (case List.find (\<lambda>qm. snd qm < current_time s)
                    (map (\<lambda>d. (new_point (current_point s) d (radius s),
                                fst (calculate_total_time a
                                       (new_point (current_point s) d (radius s)) cs ws)))
                         directions) of
               Some qm \<Rightarrow> (fst qm, snd qm, radius s)
             | None \<Rightarrow> (current_point s, current_time s, radius s / 2))"
    using iteration_by_find [of a alg cs ws s] unfolding t1 if_False .
  have fin: "total_time res = fst (calculate_total_time a (optimal_point res) cs ws)"
    if "fst (find_optimal_point a cl cs ws cm mcs mx step alg) = Inr (Some res)" for res
    using find_optimal_point_total_time [OF that] assms by simp
  have rec: "total_time (result r) =
               fst (calculate_total_time a (optimal_point (result r)) cs
                      (Some (case ws of None \<Rightarrow> replicate (length cs) 1 | Some l \<Rightarrow> l)))"
    if "fst (find_optimal_point_with_clustering a cl cs ws meth par step alg) = Inr r" for r
    using clustered_total_time [OF that] assms by simp
  have prm: "(current_point (iteration a ''min_max_time'' cs ws s),
           current_time (iteration a ''min_max_time'' cs ws s),
           radius (iteration a ''min_max_time'' cs ws s)) =
            (case List.find (\<lambda>qm. snd qm < current_time s)
                    (map (\<lambda>d. (new_point (current_point s) d (radius s),
                                fst (calculate_max_time a
                                       (new_point (current_point s) d (radius s)) cs)))
                         directions) of
               Some qm \<Rightarrow> (fst qm, snd qm, radius s)
             | None \<Rightarrow> (current_point s, current_time s, radius s / 2))"
    using iteration_by_find [of a "''min_max_time''" cs ws s] by simp
  have finm: "total_time res = fst (calculate_max_time a (optimal_point res) cs)"
    if "fst (find_optimal_point a cl cs ws cm mcs mx step ''min_max_time'') = Inr (Some res)"
    for res
    using find_optimal_point_total_time [OF that] by simp
  have recm: "total_time (result r) = fst (calculate_max_time a (optimal_point (result r)) cs)"
    if "fst (find_optimal_point_with_clustering a cl cs ws meth par step ''min_max_time'')
          = Inr r" for r
    using clustered_total_time [OF that] by simp
  show ?thesis
    using d c first pr fin rec prm finm recm by blast
qed

text \<open>
  Two locations and the tag in another case. With step \<open>11\<close> no probing happens and
  the weighted sum \<open>30\<close> of the initial point is reported. With step \<open>12\<close> the
  northern candidate has weighted sum \<open>25\<close> and maximum \<open>20\<close>: under the other
  tag it is accepted, under the exact tag the maximum stays \<open>20\<close> and the point
  stays. The clustered entry point reports \<open>30\<close> for the other tag and \<open>20\<close> for
  the exact one.
\<close>

theorem C10_objective_dispatch_witness:
  "''Min_Max_Time'' \<noteq> ''min_max_time''
   \<and> of_int 11 * (9 / 1000000) < min_radius
   \<and> initial_point one_cluster [(0, 0), (2, 2)] (Some [1, 1]) PyNone (PyInt 5) 10 = Inr (1, 1)
   \<and> fst (find_optimal_point uneven_api one_cluster [(0, 0), (2, 2)] (Some [1, 1])
          PyNone (PyInt 5) 10 11 ''Min_Max_Time'') =
        Inr (Some \<lparr>optimal_point = (1, 1), total_time = 30, pure_total_time = 30,
                individual_times =
                  [\<lparr>point_index = 0, entry_coordinates = (0, 0),
                    time_seconds = Some 10, entry_weight = 1\<rparr>,
                   \<lparr>point_index = 1, entry_coordinates = (2, 2),
                    time_seconds = Some 20, entry_weight = 1\<rparr>],
                logged_iterations = 0\<rparr>)
   \<and> fst (calculate_total_time uneven_api (1, 1) [(0, 0), (2, 2)] (Some [1, 1])) = 30
   \<and> fst (find_optimal_point uneven_api one_cluster [(0, 0), (2, 2)] (Some [1, 1])
          PyNone (PyInt 5) 10 12 ''Min_Max_Time'') =
        Inr (Some \<lparr>optimal_point = (250027 / 250000, 1), total_time = 25, pure_total_time = 25,
                individual_times =
                  [\<lparr>point_index = 0, entry_coordinates = (0, 0),
                    time_seconds = Some 5, entry_weight = 1\<rparr>,
                   \<lparr>point_index = 1, entry_coordinates = (2, 2),
                    time_seconds = Some 20, entry_weight = 1\<rparr>],
                logged_iterations = 2\<rparr>)
   \<and> fst (calculate_total_time uneven_api (250027 / 250000, 1) [(0, 0), (2, 2)] (Some [1, 1])) = 25
   \<and> fst (calculate_max_time uneven_api (250027 / 250000, 1) [(0, 0), (2, 2)]) = 20
   \<and> fst (find_optimal_point uneven_api one_cluster [(0, 0), (2, 2)] (Some [1, 1])
          PyNone (PyInt 5) 10 12 ''min_max_time'') =
        Inr (Some \<lparr>optimal_point = (1, 1), total_time = 20, pure_total_time = 30,
                individual_times =
                  [\<lparr>point_index = 0, entry_coordinates = (0, 0),
                    time_seconds = Some 10, entry_weight = 1\<rparr>,
                   \<lparr>point_index = 1, entry_coordinates = (2, 2),
                    time_seconds = Some 20, entry_weight = 1\<rparr>],
                logged_iterations = 1\<rparr>)
   \<and> fst (calculate_max_time uneven_api (1, 1) [(0, 0), (2, 2)]) = 20
   \<and> fst (find_optimal_point_with_clustering uneven_api one_cluster [(0, 0), (2, 2)]
          (Some [1, 1]) ''HDBSCAN'' 5 12 ''Min_Max_Time'') =
        Inr \<lparr>result =
               \<lparr>optimal_point = (1, 1), total_time = 30, pure_total_time = 30,
                individual_times =
                  [\<lparr>point_index = 0, entry_coordinates = (0, 0),
                    time_seconds = Some 10, entry_weight = 1\<rparr>,
                   \<lparr>point_index = 1, entry_coordinates = (2, 2),
                    time_seconds = Some 20, entry_weight = 1\<rparr>],
                logged_iterations = 4\<rparr>,
             clusters = [([(0, 0), (2, 2)], [1, 1])], cluster_count = 1,
             clustering_method = ''HDBSCAN'', clustering_param = 5\<rparr>
   \<and> fst (find_optimal_point_with_clustering uneven_api one_cluster [(0, 0), (2, 2)]
          (Some [1, 1]) ''HDBSCAN'' 5 12 ''min_max_time'') =
        Inr \<lparr>result =
               \<lparr>optimal_point = (1, 1), total_time = 20, pure_total_time = 30,
                individual_times =
                  [\<lparr>point_index = 0, entry_coordinates = (0, 0),
                    time_seconds = Some 10, entry_weight = 1\<rparr>,
                   \<lparr>point_index = 1, entry_coordinates = (2, 2),
                    time_seconds = Some 20, entry_weight = 1\<rparr>],
                logged_iterations = 4\<rparr>,
             clusters = [([(0, 0), (2, 2)], [1, 1])], cluster_count = 1,
             clustering_method = ''HDBSCAN'', clustering_param = 5\<rparr>"
proof -
  have n: "''Min_Max_Time'' \<noteq> ''min_max_time''" by simp
  have rad: "of_int 11 * (9 / 1000000) < min_radius" by (simp add: min_radius_def)
  have ip: "initial_point one_cluster [(0, 0), (2, 2)] (Some [1, 1]) PyNone (PyInt 5) 10 = Inr (1, 1)"
    by code_simp
  have h1: "fst (find_optimal_point uneven_api one_cluster [(0, 0), (2, 2)] (Some [1, 1])
          PyNone (PyInt 5) 10 12 ''Min_Max_Time'') =
        Inr (Some \<lparr>optimal_point = (250027 / 250000, 1), total_time = 25, pure_total_time = 25,
                individual_times =
                  [\<lparr>point_index = 0, entry_coordinates = (0, 0),
                    time_seconds = Some 5, entry_weight = 1\<rparr>,
                   \<lparr>point_index = 1, entry_coordinates = (2, 2),
                    time_seconds = Some 20, entry_weight = 1\<rparr>],
                logged_iterations = 2\<rparr>)"
    by code_simp
  have h2: "fst (find_optimal_point uneven_api one_cluster [(0, 0), (2, 2)] (Some [1, 1])
          PyNone (PyInt 5) 10 12 ''min_max_time'') =
        Inr (Some \<lparr>optimal_point = (1, 1), total_time = 20, pure_total_time = 30,
                individual_times =
                  [\<lparr>point_index = 0, entry_coordinates = (0, 0),
                    time_seconds = Some 10, entry_weight = 1\<rparr>,
                   \<lparr>point_index = 1, entry_coordinates = (2, 2),
                    time_seconds = Some 20, entry_weight = 1\<rparr>],
                logged_iterations = 1\<rparr>)"
    by code_simp
  have h3: "fst (find_optimal_point_with_clustering uneven_api one_cluster [(0, 0), (2, 2)]
          (Some [1, 1]) ''HDBSCAN'' 5 12 ''Min_Max_Time'') =
        Inr \<lparr>result =
               \<lparr>optimal_point = (1, 1), total_time = 30, pure_total_time = 30,
                individual_times =
                  [\<lparr>point_index = 0, entry_coordinates = (0, 0),
                    time_seconds = Some 10, entry_weight = 1\<rparr>,
                   \<lparr>point_index = 1, entry_coordinates = (2, 2),
                    time_seconds = Some 20, entry_weight = 1\<rparr>],
                logged_iterations = 4\<rparr>,
             clusters = [([(0, 0), (2, 2)], [1, 1])], cluster_count = 1,
             clustering_method = ''HDBSCAN'', clustering_param = 5\<rparr>"
    by code_simp
  have h4: "fst (find_optimal_point_with_clustering uneven_api one_cluster [(0, 0), (2, 2)]
          (Some [1, 1]) ''HDBSCAN'' 5 12 ''min_max_time'') =
        Inr \<lparr>result =
               \<lparr>optimal_point = (1, 1), total_time = 20, pure_total_time = 30,
                individual_times =
                  [\<lparr>point_index = 0, entry_coordinates = (0, 0),
                    time_seconds = Some 10, entry_weight = 1\<rparr>,
                   \<lparr>point_index = 1, entry_coordinates = (2, 2),
                    time_seconds = Some 20, entry_weight = 1\<rparr>],
                logged_iterations = 4\<rparr>,
             clusters = [([(0, 0), (2, 2)], [1, 1])], cluster_count = 1,
             clustering_method = ''HDBSCAN'', clustering_param = 5\<rparr>"
    by code_simp
  have h5: "fst (find_optimal_point uneven_api one_cluster [(0, 0), (2, 2)] (Some [1, 1])
          PyNone (PyInt 5) 10 11 ''Min_Max_Time'') =
        Inr (Some \<lparr>optimal_point = (1, 1), total_time = 30, pure_total_time = 30,
                individual_times =
                  [\<lparr>point_index = 0, entry_coordinates = (0, 0),
                    time_seconds = Some 10, entry_weight = 1\<rparr>,
                   \<lparr>point_index = 1, entry_coordinates = (2, 2),
                    time_seconds = Some 20, entry_weight = 1\<rparr>],
                logged_iterations = 0\<rparr>)"
    by code_simp
  have e2: "fst (calculate_max_time uneven_api (250027 / 250000, 1) [(0, 0), (2, 2)]) = 20"
    by code_simp
  note t12 = C10_objective_dispatch [OF n, where a = uneven_api and cl = one_cluster
      and cs = "[(0, 0), (2, 2)]" and ws = "Some [1, 1]" and cm = PyNone and mcs = "PyInt 5"
      and mx = 10 and step = 12 and meth = "''HDBSCAN''" and par = 5]
  note t11 = C10_objective_dispatch [OF n, where a = uneven_api and cl = one_cluster
      and cs = "[(0, 0), (2, 2)]" and ws = "Some [1, 1]" and cm = PyNone and mcs = "PyInt 5"
      and mx = 10 and step = 11 and meth = "''HDBSCAN''" and par = 5]
  have e1: "fst (calculate_total_time uneven_api (250027 / 250000, 1) [(0, 0), (2, 2)] (Some [1, 1])) = 25"
    using t12 h1 by simp
  have e3: "fst (calculate_total_time uneven_api (1, 1) [(0, 0), (2, 2)] (Some [1, 1])) = 30"
    using t11 rad ip h5 by simp
  have e4: "fst (calculate_max_time uneven_api (1, 1) [(0, 0), (2, 2)]) = 20"
    using t12 h2 by simp
  show ?thesis
    using n rad ip h1 h2 h3 h4 h5 e1 e2 e3 e4 by blast
qed

end
